theory Spec2Isabelle
  imports Complex_Main "HOL-Library.AList"
begin

section \<open>The PubMatic real-time-data provider (modules/pubmaticRtdProvider.ts)\<close>

subsection \<open>JavaScript values\<close>

text \<open>
  Values as the module sees them: the results of \<open>response.json()\<close>, the blocks read
  from the page configuration and the function references placed under
  \<open>additionalSchemaFields\<close>. Numbers are the finite numbers JSON can carry, taken as
  exact rationals. An object is its list of own properties; every read goes through
  \<open>map_of\<close>, so the first entry of a key is the property.
\<close>

datatype jsval =
    JUndefined
  | JNull
  | JBool bool
  | JNum rat
  | JStr string
  | JArr "jsval list"
  | JObj "(string \<times> jsval) list"
  | JFun string

type_synonym jsobj = "(string \<times> jsval) list"

text \<open>The truthiness test behind \<open>!x\<close>, \<open>x || y\<close> and \<open>if (x)\<close>.\<close>

fun truthy :: "jsval \<Rightarrow> bool" where
  "truthy JUndefined = False"
| "truthy JNull = False"
| "truthy (JBool b) = b"
| "truthy (JNum n) = (n \<noteq> 0)"
| "truthy (JStr s) = (s \<noteq> [])"
| "truthy (JArr xs) = True"
| "truthy (JObj kvs) = True"
| "truthy (JFun f) = True"

text \<open>\<open>x == null\<close>, the test behind \<open>??\<close> and \<open>?.\<close>.\<close>

fun nullish :: "jsval \<Rightarrow> bool" where
  "nullish JUndefined = True"
| "nullish JNull = True"
| "nullish v = False"

text \<open>
  \<open>v.k\<close> on a value that is not nullish, for the keys this module reads
  (\<open>plugins\<close>, \<open>dynamicFloors\<close>, \<open>enabled\<close>, \<open>config\<close>, \<open>defaultValues\<close>, \<open>skipRate\<close>,
  \<open>endpoint\<close>, \<open>auctionDelay\<close>, \<open>params\<close>, \<open>publisherId\<close>, \<open>profileId\<close>,
  \<open>ortb2Fragments\<close>, \<open>bidder\<close>): none of them is a property of a primitive, an array or
  a function, so only an object answers.
\<close>

fun get_prop :: "jsval \<Rightarrow> string \<Rightarrow> jsval" where
  "get_prop (JObj kvs) k = (case map_of kvs k of None \<Rightarrow> JUndefined | Some v \<Rightarrow> v)"
| "get_prop v k = JUndefined"

text \<open>\<open>v?.k\<close>.\<close>

definition opt_prop :: "jsval \<Rightarrow> string \<Rightarrow> jsval" where
  "opt_prop v k = (if nullish v then JUndefined else get_prop v k)"

text \<open>Thrown values: a TypeError of the language, or an \<open>Error\<close> with its message.\<close>

datatype exn = TypeError | Error string

subsection \<open>Constants\<close>

datatype time_of_day = MORNING | AFTERNOON | EVENING | NIGHT

fun TIME_OF_DAY_VALUES :: "time_of_day \<Rightarrow> string" where
  "TIME_OF_DAY_VALUES MORNING = ''morning''"
| "TIME_OF_DAY_VALUES AFTERNOON = ''afternoon''"
| "TIME_OF_DAY_VALUES EVENING = ''evening''"
| "TIME_OF_DAY_VALUES NIGHT = ''night''"

definition LOG_PRE_FIX :: string where
  "LOG_PRE_FIX = ''PubMatic-Rtd-Provider: ''"

definition SUBMODULE_NAME :: string where
  "SUBMODULE_NAME = ''pubmatic''"

definition UTM :: string where
  "UTM = ''utm_''"

definition UTM_TRUE :: string where
  "UTM_TRUE = ''1''"

definition UTM_FALSE :: string where
  "UTM_FALSE = ''0''"

subsection \<open>Time of day\<close>

text \<open>
  \<open>getCurrentTimeOfDay\<close> reads \<open>new Date().getHours()\<close>; the hour is the argument here.
\<close>

definition getCurrentTimeOfDay :: "int \<Rightarrow> string" where
  "getCurrentTimeOfDay currentHour =
     (if currentHour < 5 then TIME_OF_DAY_VALUES NIGHT
      else if currentHour < 12 then TIME_OF_DAY_VALUES MORNING
      else if currentHour < 17 then TIME_OF_DAY_VALUES AFTERNOON
      else if currentHour < 19 then TIME_OF_DAY_VALUES EVENING
      else TIME_OF_DAY_VALUES NIGHT)"

subsection \<open>Strings\<close>

text \<open>
  \<open>Number.prototype.toString\<close> on a natural number (the browser ids), \<open>toLowerCase\<close> on
  ASCII letters, \<open>Array.prototype.join\<close> and \<open>String.prototype.includes\<close>.
\<close>

definition digit_char :: "nat \<Rightarrow> char" where
  "digit_char d = char_of (48 + d)"

fun toString_nat :: "nat \<Rightarrow> string" where
  "toString_nat n =
     (if n < 10 then [digit_char n] else toString_nat (n div 10) @ [digit_char (n mod 10)])"

declare toString_nat.simps [simp del]

definition toLowerCase_char :: "char \<Rightarrow> char" where
  "toLowerCase_char c =
     (let n = (of_char c :: nat) in if 65 \<le> n \<and> n \<le> 90 then char_of (n + 32) else c)"

definition toLowerCase :: "string \<Rightarrow> string" where
  "toLowerCase s = map toLowerCase_char s"

fun join :: "string \<Rightarrow> string list \<Rightarrow> string" where
  "join sep [] = []"
| "join sep [x] = x"
| "join sep (x # y # ys) = x @ sep @ join sep (y # ys)"

fun startsWith :: "string \<Rightarrow> string \<Rightarrow> bool" where
  "startsWith s [] = True"
| "startsWith [] (p # ps) = False"
| "startsWith (c # cs) (p # ps) = (c = p \<and> startsWith cs ps)"

fun includes_str :: "string \<Rightarrow> string \<Rightarrow> bool" where
  "includes_str [] sub = (sub = [])"
| "includes_str (c # cs) sub = (startsWith (c # cs) sub \<or> includes_str cs sub)"

subsection \<open>Objects\<close>

text \<open>
  What an object spread \<open>{...v}\<close> copies: the own enumerable properties. An array gives
  its elements under their indices, a string its characters, any other primitive and a
  function reference nothing.
\<close>

fun own_props :: "jsval \<Rightarrow> jsobj" where
  "own_props (JObj kvs) = kvs"
| "own_props (JArr xs) = zip (map toString_nat [0..<length xs]) xs"
| "own_props (JStr s) = zip (map toString_nat [0..<length s]) (map (\<lambda>c. JStr [c]) s)"
| "own_props v = []"

text \<open>
  \<open>{...acc, ...ps}\<close> and \<open>{...acc, k: v}\<close>: the properties of \<open>ps\<close> are written onto
  \<open>acc\<close> in order; a key already there keeps its place and takes the new value. A
  list that repeats a key is copied as \<open>map_of\<close> reads it: \<open>clearjunk\<close> keeps the first
  entry of each key.
\<close>

definition spread :: "jsobj \<Rightarrow> jsobj \<Rightarrow> jsobj" where
  "spread acc ps = fold (\<lambda>(k, v). AList.update k v) (AList.clearjunk ps) acc"

text \<open>
  Modelled from the spec: \<open>isStr\<close> of src/utils.js is not among the sources. A publisher
  or profile id that "should be a string" is a \<open>JStr\<close>.
\<close>

definition isStr :: "jsval \<Rightarrow> bool" where
  "isStr v = (case v of JStr s \<Rightarrow> True | _ \<Rightarrow> False)"

text \<open>
  Modelled from the spec: \<open>isPlainObject\<close> of src/utils.js is not among the sources. A
  profile configuration that is "malformed", "not an object", is anything but a \<open>JObj\<close>.
\<close>

definition isPlainObject :: "jsval \<Rightarrow> bool" where
  "isPlainObject v = (case v of JObj kvs \<Rightarrow> True | _ \<Rightarrow> False)"

text \<open>
  Modelled from the spec: \<open>isEmpty\<close> of src/utils.js is not among the sources. Empty is
  every falsy value, an array or string of length 0, and otherwise a value without own
  keys.
\<close>

definition isEmpty :: "jsval \<Rightarrow> bool" where
  "isEmpty v =
     (if \<not> truthy v then True
      else case v of
             JArr xs \<Rightarrow> xs = []
           | JStr s \<Rightarrow> s = []
           | _ \<Rightarrow> own_props v = [])"

subsection \<open>Floor configuration\<close>

definition defaultValueTemplate :: jsobj where
  "defaultValueTemplate =
     [(''currency'', JStr ''USD''),
      (''skipRate'', JNum 0),
      (''schema'', JObj [(''fields'', JArr [JStr ''mediaType'', JStr ''size''])])]"

definition additionalSchemaFields :: jsobj where
  "additionalSchemaFields =
     [(''deviceType'', JFun ''getDeviceType''),
      (''timeOfDay'', JFun ''getCurrentTimeOfDay''),
      (''browser'', JFun ''getBrowserType''),
      (''os'', JFun ''getOs''),
      (''utm'', JFun ''getUtm''),
      (''country'', JFun ''getCountry'')]"

text \<open>
  \<open>conf.getConfig('floors') ?? {}\<close> with a truthy \<open>endpoint\<close> deleted. Only an object
  can hold a truthy \<open>endpoint\<close>, so the \<open>delete\<close> acts on objects alone.
\<close>

definition defaultFloorConfig_of :: "jsval \<Rightarrow> jsval" where
  "defaultFloorConfig_of floors_conf =
     (let defaultFloorConfig = (if nullish floors_conf then JObj [] else floors_conf)
      in if truthy (opt_prop defaultFloorConfig ''endpoint'')
         then (case defaultFloorConfig of
                 JObj kvs \<Rightarrow> JObj (AList.delete ''endpoint'' kvs)
               | v \<Rightarrow> v)
         else defaultFloorConfig)"

text \<open>
  The data payload \<open>finalFloorsData\<close>, from the fetched data and the copy \<open>config\<close> of
  the plugin configuration: \<open>floorsData ?? { ...defaultValueTemplate, values: {
  ...defaultValues } }\<close> with \<open>defaultValues = config.defaultValues ?? {}\<close>, then
  \<open>skipRate\<close> overwritten when \<open>config.skipRate !== undefined\<close>.
\<close>

definition finalFloorsData_of :: "jsobj option \<Rightarrow> jsobj \<Rightarrow> jsobj" where
  "finalFloorsData_of floorsData config =
     (let dv = get_prop (JObj config) ''defaultValues'';
          defaultValues = (if nullish dv then JObj [] else dv);
          finalFloorsData =
            (case floorsData of
               Some fd \<Rightarrow> fd
             | None \<Rightarrow>
                 spread (spread [] defaultValueTemplate)
                   [(''values'', JObj (spread [] (own_props defaultValues)))]);
          skipRate = get_prop (JObj (AList.delete ''defaultValues'' config)) ''skipRate''
      in if skipRate \<noteq> JUndefined
         then AList.update ''skipRate'' skipRate finalFloorsData
         else finalFloorsData)"

text \<open>\<open>typedConfig.plugins?.dynamicFloors\<close>, the plugin data of the profile.\<close>

definition dynamicFloors_of :: "jsval \<Rightarrow> jsval" where
  "dynamicFloors_of profileConfigs =
     opt_prop (get_prop profileConfigs ''plugins'') ''dynamicFloors''"

text \<open>
  \<open>getFloorsConfig(floorsData, profileConfigs)\<close>. The page-level block
  \<open>conf.getConfig('floors')\<close> is the first argument. \<open>floorsData\<close> is as its type
  \<open>FloorsData | undefined\<close> declares it: an object or nothing. The result is \<open>JUndefined\<close>
  or the object \<open>{floors: ...}\<close>. The function works on the objects it is given (it
  deletes \<open>endpoint\<close> from the block \<open>getConfig\<close> returned and writes \<open>skipRate\<close> into the
  fetched data); what is modelled is the value it returns.
\<close>

definition getFloorsConfig :: "jsval \<Rightarrow> jsobj option \<Rightarrow> jsval \<Rightarrow> jsval" where
  "getFloorsConfig floors_conf floorsData profileConfigs =
     (if \<not> isPlainObject profileConfigs \<or> isEmpty profileConfigs then JUndefined
      else
        let defaultFloorConfig = defaultFloorConfig_of floors_conf;
            dynamicFloors = dynamicFloors_of profileConfigs
        in if \<not> truthy (opt_prop dynamicFloors ''enabled'')
              \<or> \<not> truthy (opt_prop dynamicFloors ''config'')
           then JUndefined
           else
             let config = spread [] (own_props (get_prop dynamicFloors ''config''));
                 finalFloorsData = finalFloorsData_of floorsData config
             in JObj [(''floors'',
                       JObj (spread
                               (spread (spread [] (own_props defaultFloorConfig))
                                  (AList.delete ''defaultValues'' config))
                               [(''data'', JObj finalFloorsData),
                                (''additionalSchemaFields'', JObj additionalSchemaFields)]))])"

subsection \<open>Promises and the timeout race\<close>

text \<open>
  A promise is taken by its fate on the page's clock, in milliseconds: fulfilled with a
  value at an instant, rejected with an error at an instant, or never settled. A value of
  type \<open>T | undefined\<close> is an \<open>option\<close>, \<open>None\<close> being \<open>undefined\<close>.
\<close>

datatype 'a promise = Fulfilled rat 'a | Rejected rat exn | Pending

fun settled_at :: "'a promise \<Rightarrow> rat option" where
  "settled_at (Fulfilled t v) = Some t"
| "settled_at (Rejected t e) = Some t"
| "settled_at Pending = None"

text \<open>
  \<open>p.finally(f)\<close> for an \<open>f\<close> that returns normally (here \<open>clearTimeout\<close>): the fate of
  \<open>p\<close>, observed no earlier than the instant \<open>now\<close> at which the reaction is attached.
\<close>

fun finally_at :: "rat \<Rightarrow> 'a promise \<Rightarrow> 'a promise" where
  "finally_at now (Fulfilled t v) = Fulfilled (max now t) v"
| "finally_at now (Rejected t e) = Rejected (max now t) e"
| "finally_at now Pending = Pending"

text \<open>
  \<open>Promise.race([a, b])\<close>: the one that settles first; when both settle at the same
  instant the first of the array is taken.
\<close>

definition race :: "'a promise \<Rightarrow> 'a promise \<Rightarrow> 'a promise" where
  "race a b =
     (case (settled_at a, settled_at b) of
        (None, _) \<Rightarrow> b
      | (Some ta, None) \<Rightarrow> a
      | (Some ta, Some tb) \<Rightarrow> if ta \<le> tb then a else b)"

text \<open>\<open>.catch((error) => { logError(...); return undefined; })\<close>.\<close>

fun catch_undefined :: "'a option promise \<Rightarrow> 'a option promise" where
  "catch_undefined (Rejected t error) = Fulfilled t None"
| "catch_undefined p = p"

text \<open>
  The delay of \<open>setTimeout(f, ms)\<close> is a signed 32-bit integer: \<open>ms\<close> is truncated towards
  zero and reduced modulo \<open>2^32\<close> into the range from \<open>-2^31\<close> to \<open>2^31 - 1\<close>, and a
  negative delay counts as 0. So a whole \<open>ms\<close> up to 2147483647 is its own delay, a
  fraction is dropped, and 2147483648 fires at once.
\<close>

definition to_int32 :: "rat \<Rightarrow> int" where
  "to_int32 x =
     (let n = (if 0 \<le> x then \<lfloor>x\<rfloor> else - \<lfloor>- x\<rfloor>);
          m = n mod 4294967296
      in if 2147483648 \<le> m then m - 4294967296 else m)"

definition timer_delay :: "rat \<Rightarrow> rat" where
  "timer_delay ms = of_int (max 0 (to_int32 ms))"

text \<open>
  \<open>withTimeout(promise, ms)\<close>, called at the instant \<open>now\<close>. The timer armed by
  \<open>setTimeout(..., ms)\<close> fires when its delay has passed and resolves \<open>timeoutPromise\<close>
  with \<open>undefined\<close>.
\<close>

definition withTimeout :: "rat \<Rightarrow> 'a option promise \<Rightarrow> rat \<Rightarrow> 'a option promise" where
  "withTimeout now promise ms =
     (if ms \<le> 0 then promise
      else
        let timeoutPromise = Fulfilled (now + timer_delay ms) None
        in catch_undefined (race (finally_at now promise) timeoutPromise))"

subsection \<open>Remote fetch with retry\<close>

text \<open>
  One HTTP exchange: \<open>fetch\<close> rejects, or gives a response with its \<open>ok\<close> flag, status,
  \<open>country_code\<close> header (if any) and the outcome of \<open>response.json()\<close>. The network is a
  function from the URL and the number of the request to that URL (from 0) to the time
  the exchange takes and what comes of it. Every exchange is one that completes: a
  request that is never answered and never fails is not among them.
\<close>

record 'a response =
  ok :: bool
  status :: nat
  country_code :: "string option"
  json :: "exn + 'a"

datatype 'a attempt = NetworkError exn | Response "'a response"

type_synonym 'a network = "string \<Rightarrow> nat \<Rightarrow> rat \<times> 'a attempt"

datatype fetch_type = FLOORS | CONFIGS

definition BASEURL :: string where
  "BASEURL = ''https://ads.pubmatic.com/AdServer/js/pwt''"

fun ENDPOINTS :: "fetch_type \<Rightarrow> string" where
  "ENDPOINTS FLOORS = ''floors.json''"
| "ENDPOINTS CONFIGS = ''config.json''"

definition fetch_url :: "string \<Rightarrow> string \<Rightarrow> fetch_type \<Rightarrow> string" where
  "fetch_url publisherId profileId type =
     (let endpoint = ENDPOINTS type;
          baseURL = (if type = FLOORS then BASEURL @ ''/floors'' else BASEURL)
      in baseURL @ ''/'' @ publisherId @ ''/'' @ profileId @ ''/'' @ endpoint)"

text \<open>
  \<open>cc.split(',')?.map(code => code.trim())[0]\<close> on a non-empty header value. A header
  value is a byte string, each byte one character of the JavaScript string, so of the
  white space and line terminators that \<open>trim\<close> strips only the codes 9 to 13, 32 and
  160 (the no-break space) can occur.
\<close>

definition is_space :: "char \<Rightarrow> bool" where
  "is_space c = ((of_char c :: nat) \<in> {9, 10, 11, 12, 13, 32, 160})"

definition trim :: "string \<Rightarrow> string" where
  "trim s = rev (dropWhile is_space (rev (dropWhile is_space s)))"

definition first_country :: "string \<Rightarrow> string" where
  "first_country cc = trim (takeWhile (\<lambda>c. c \<noteq> CHR '','') cc)"

text \<open>
  The module variable \<open>_country\<close> over time: the assignments made to it, each with its
  instant, the latest first. Its value at an instant is that of the latest assignment
  made by then, and \<open>undefined\<close> before the first.
\<close>

type_synonym country_log = "(rat \<times> string option) list"

definition country_at :: "country_log \<Rightarrow> rat \<Rightarrow> string option" where
  "country_at writes t =
     (case filter (\<lambda>(w, c). w \<le> t) writes of [] \<Rightarrow> None | (w, c) # earlier \<Rightarrow> c)"

text \<open>
  The \<open>try\<close> block of \<open>fetchData\<close> on one exchange that ends at the instant \<open>t\<close>: the
  thrown error or the parsed body, and the assignments to \<open>_country\<close> afterwards. A
  FLOORS response that is \<open>ok\<close> assigns \<open>_country\<close> before its body is parsed.
\<close>

definition fetch_try ::
  "fetch_type \<Rightarrow> 'a attempt \<Rightarrow> rat \<Rightarrow> country_log \<Rightarrow> (exn + 'a) \<times> country_log" where
  "fetch_try type a t country =
     (case a of
        NetworkError e \<Rightarrow> (Inl e, country)
      | Response response \<Rightarrow>
          if \<not> ok response then (Inl (Error ''HTTP error! status''), country)
          else
            let country' =
                  (if type = FLOORS
                   then (t, case country_code response of
                              None \<Rightarrow> None
                            | Some cc \<Rightarrow> if cc \<noteq> [] then Some (first_country cc) else None)
                        # country
                   else country)
            in (json response, country'))"

text \<open>
  \<open>fetchData(publisherId, profileId, type, retries)\<close>, started at the instant \<open>now\<close> as
  request number \<open>n\<close> to its URL, with the assignments to \<open>_country\<close> passed through. It
  returns the fate of its promise, the number of the next request and the assignments
  to \<open>_country\<close>. A failed exchange with retries left waits 1000 ms and calls itself
  with one retry less.
\<close>

function fetchData ::
  "'a network \<Rightarrow> string \<Rightarrow> string \<Rightarrow> fetch_type \<Rightarrow> int \<Rightarrow> rat \<times> nat \<times> country_log
     \<Rightarrow> 'a option promise \<times> nat \<times> country_log" where
  "fetchData net publisherId profileId type retries (now, n, country) =
     (case net (fetch_url publisherId profileId type) n of
        (d, a) \<Rightarrow>
          (case fetch_try type a (now + d) country of
             (Inr body, country') \<Rightarrow> (Fulfilled (now + d) (Some body), Suc n, country')
           | (Inl error, country') \<Rightarrow>
               if retries > 0
               then fetchData net publisherId profileId type (retries - 1)
                      (now + d + 1000, Suc n, country')
               else (Fulfilled (now + d) None, Suc n, country')))"
  by pat_completeness auto
termination
  by (relation "measure (\<lambda>(net, publisherId, profileId, type, retries, s). nat retries)") auto

declare fetchData.simps [simp del]

text \<open>The default of the parameter \<open>retries\<close>.\<close>

definition retries_default :: int where
  "retries_default = 2"

text \<open>An exchange fails when the \<open>try\<close> block throws on it.\<close>

definition attempt_fails :: "'a attempt \<Rightarrow> bool" where
  "attempt_fails a =
     (case a of
        NetworkError e \<Rightarrow> True
      | Response response \<Rightarrow> \<not> ok response \<or> isl (json response))"

subsection \<open>The host and the module state\<close>

text \<open>
  What the module calls but does not define: the page configuration \<open>conf\<close> (its
  \<open>realTimeData\<close> and \<open>floors\<close> blocks, and \<open>setConfig\<close>, which returns or throws), the
  price-floors hook \<open>continueAuction\<close> and \<open>mergeDeep\<close> (each returns the object it has
  updated, or throws), and the auction's \<open>callback\<close>, whose invocation number \<open>k\<close> (from
  0) returns or throws. \<open>logError\<close> and \<open>logInfo\<close> write to the console and return.
\<close>

record host =
  conf_realTimeData :: jsval
  conf_floors :: jsval
  conf_setConfig :: "jsval \<Rightarrow> exn option"
  isFn_continueAuction :: bool
  continueAuction :: "jsval \<Rightarrow> exn + jsval"
  mergeDeep :: "jsval \<Rightarrow> jsval \<Rightarrow> exn + jsval"
  callback :: "nat \<Rightarrow> exn option"

text \<open>
  The module variables: \<open>initTime\<close>, \<open>_country\<close> with its assignments over time, and the
  one-shot gate \<open>configMergedPromise\<close>, held as the instant of its resolution (\<open>None\<close>
  while pending).
\<close>

record module_state =
  initTime :: "rat option"
  country :: country_log
  configMergedPromise :: "rat option"

definition module_loaded :: module_state where
  "module_loaded = \<lparr>initTime = None, country = [], configMergedPromise = None\<rparr>"

subsection \<open>Initialisation and the merge step\<close>

text \<open>
  The budget computed at the head of the merge step, at the instant \<open>now\<close>:
  \<open>Math.max(maxWaitTime - elapsedTime, 0)\<close> with \<open>maxWaitTime = Math.max(0.8 *
  auctionDelay, 0)\<close>, where \<open>auctionDelay\<close> is 0 unless \<open>realTimeData.auctionDelay\<close> is a
  number.
\<close>

definition auctionDelay_of :: "host \<Rightarrow> rat" where
  "auctionDelay_of h =
     (let rtdConfig = (if truthy (conf_realTimeData h) then conf_realTimeData h else JObj [])
      in case get_prop rtdConfig ''auctionDelay'' of JNum n \<Rightarrow> n | _ \<Rightarrow> 0)"

definition remainingTime :: "host \<Rightarrow> rat \<Rightarrow> rat \<Rightarrow> rat" where
  "remainingTime h init_time now =
     (let auctionDelay = auctionDelay_of h;
          maxWaitTime = max (8 / 10 * auctionDelay) 0;
          elapsedTime = now - init_time
      in max (maxWaitTime - elapsedTime) 0)"

text \<open>
  The chain \<open>_fetchConfigPromise.then(async ...).catch(...)\<close>. The handler runs when the
  configuration promise is fulfilled, at the instant \<open>t\<close>; it awaits the timeout race
  around the floor-rules promise, merges, hands a truthy result to \<open>conf.setConfig\<close>,
  and calls \<open>configMerged()\<close> in its \<open>finally\<close>. A rejected wait or a throwing
  \<open>setConfig\<close> lands in the handler's \<open>catch\<close>; a rejected configuration promise lands
  in the chain's \<open>.catch\<close>, which calls \<open>configMerged()\<close> too. The outcome records the
  instant of \<open>configMerged()\<close>, the ceiling handed to \<open>withTimeout\<close>, the fate of the race
  and the configuration installed. The configuration promise is made by \<open>init\<close>, so it
  settles no earlier than \<open>init_time\<close>, and \<open>Date.now()\<close> in the handler is \<open>t\<close>.
\<close>

record merge_outcome =
  configMerged_at :: "rat option"
  wait_ceiling :: "rat option"
  raced :: "jsobj option promise option"
  installed :: "jsval option"

definition mergePipeline ::
  "host \<Rightarrow> rat \<Rightarrow> jsval option promise \<Rightarrow> jsobj option promise \<Rightarrow> merge_outcome" where
  "mergePipeline h init_time fetchConfigPromise fetchFloorRulesPromise =
     (case fetchConfigPromise of
        Pending \<Rightarrow>
          \<lparr>configMerged_at = None, wait_ceiling = None, raced = None, installed = None\<rparr>
      | Rejected t error \<Rightarrow>
          \<lparr>configMerged_at = Some t, wait_ceiling = None, raced = None, installed = None\<rparr>
      | Fulfilled t pc \<Rightarrow>
          let profileConfigs = (case pc of None \<Rightarrow> JUndefined | Some v \<Rightarrow> v);
              remaining = remainingTime h init_time t;
              waited = withTimeout t fetchFloorRulesPromise remaining
          in case waited of
               Pending \<Rightarrow>
                 \<lparr>configMerged_at = None, wait_ceiling = Some remaining, raced = Some waited,
                  installed = None\<rparr>
             | Rejected t' error \<Rightarrow>
                 \<lparr>configMerged_at = Some (max t t'), wait_ceiling = Some remaining,
                  raced = Some waited, installed = None\<rparr>
             | Fulfilled t' floorsData \<Rightarrow>
                 let floorsConfig = getFloorsConfig (conf_floors h) floorsData profileConfigs
                 in \<lparr>configMerged_at = Some (max t t'), wait_ceiling = Some remaining,
                     raced = Some waited,
                     installed =
                       (if truthy floorsConfig \<and> conf_setConfig h floorsConfig = None
                        then Some floorsConfig else None)\<rparr>)"

text \<open>
  \<open>init(config)\<close> at the instant \<open>now\<close>, over the networks of the two endpoints. A
  missing or non-string id, or a missing \<open>continueAuction\<close>, throws inside the \<open>try\<close> and
  \<open>init\<close> returns \<open>false\<close> with no request made. Otherwise both fetches start, each
  with the default retries, the merge chain is attached and \<open>init\<close> returns \<open>true\<close>.
  The outcome gives the return value, the module state with every assignment to
  \<open>_country\<close> and its instant, the number of requests made and the outcome of the merge
  chain.
\<close>

record init_outcome =
  returned :: bool
  state :: module_state
  requests :: nat
  merge :: "merge_outcome option"

definition the_str :: "jsval \<Rightarrow> string" where
  "the_str v = (case v of JStr s \<Rightarrow> s | _ \<Rightarrow> [])"

definition init ::
  "host \<Rightarrow> jsobj network \<Rightarrow> jsval network \<Rightarrow> rat \<Rightarrow> jsval \<Rightarrow> module_state \<Rightarrow> init_outcome" where
  "init h net_floors net_configs now config st =
     (let st1 = st\<lparr>initTime := Some now\<rparr>;
          p = opt_prop config ''params'';
          params = (if truthy p then p else JObj []);
          publisherId = get_prop params ''publisherId'';
          profileId = get_prop params ''profileId'';
          failed = \<lparr>returned = False, state = st1, requests = 0, merge = None\<rparr>
      in if \<not> truthy publisherId \<or> \<not> isStr publisherId then failed
         else if \<not> truthy profileId \<or> \<not> isStr profileId then failed
         else if \<not> isFn_continueAuction h then failed
         else
           (case fetchData net_floors (the_str publisherId) (the_str profileId) FLOORS
                   retries_default (now, 0, country st1) of
              (floorPromise, n_floors, country1) \<Rightarrow>
                (case fetchData net_configs (the_str publisherId) (the_str profileId) CONFIGS
                        retries_default (now, 0, country1) of
                   (configPromise, n_configs, country2) \<Rightarrow>
                     let m = mergePipeline h now configPromise floorPromise
                     in \<lparr>returned = True,
                         state = st1\<lparr>country := country2,
                                     configMergedPromise :=
                                       (case configMergedPromise st1 of
                                          Some t \<Rightarrow> Some t
                                        | None \<Rightarrow> configMerged_at m)\<rparr>,
                         requests = n_floors + n_configs,
                         merge = Some m\<rparr>)))"

subsection \<open>Bid-request enrichment\<close>

text \<open>\<open>typeof v === 'object'\<close>.\<close>

fun typeof_object :: "jsval \<Rightarrow> bool" where
  "typeof_object JNull = True"
| "typeof_object (JArr xs) = True"
| "typeof_object (JObj kvs) = True"
| "typeof_object v = False"

text \<open>
  \<open>o.k = v\<close> in a module, which is strict code: a TypeError on \<open>undefined\<close>, \<open>null\<close> and
  on a primitive. An array or a function takes the property; the arrays and function
  references here carry no named properties, so the store leaves them as they are.
\<close>

fun set_prop :: "jsval \<Rightarrow> string \<Rightarrow> jsval \<Rightarrow> exn + jsval" where
  "set_prop (JObj kvs) k v = Inr (JObj (AList.update k v kvs))"
| "set_prop (JArr xs) k v = Inr (JArr xs)"
| "set_prop (JFun f) k v = Inr (JFun f)"
| "set_prop o' k v = Inl TypeError"

text \<open>
  The two assignments that make sure \<open>reqBidsConfigObj.ortb2Fragments.bidder\<close> exists.
\<close>

definition ensure_bidder :: "jsval \<Rightarrow> exn + jsval" where
  "ensure_bidder reqBidsConfigObj =
     (let ortb2Fragments = get_prop reqBidsConfigObj ''ortb2Fragments''
      in if \<not> truthy ortb2Fragments
         then set_prop reqBidsConfigObj ''ortb2Fragments'' (JObj [(''bidder'', JObj [])])
         else if \<not> truthy (get_prop ortb2Fragments ''bidder'')
         then (case set_prop ortb2Fragments ''bidder'' (JObj []) of
                 Inl e \<Rightarrow> Inl e
               | Inr fragments \<Rightarrow> set_prop reqBidsConfigObj ''ortb2Fragments'' fragments)
         else Inr reqBidsConfigObj)"

text \<open>
  The \<open>try\<close> block of the gate's continuation with its \<open>catch\<close>: \<open>continueAuction\<close>, then
  the country merged into \<open>ortb2Fragments.bidder\<close> when \<open>_country\<close> is truthy. Whatever is
  thrown is logged, and the request stays as it was at that point.
\<close>

definition enrich :: "host \<Rightarrow> string option \<Rightarrow> jsval \<Rightarrow> jsval" where
  "enrich h country' reqBidsConfigObj =
     (case continueAuction h reqBidsConfigObj of
        Inl error \<Rightarrow> reqBidsConfigObj
      | Inr req \<Rightarrow>
          (case country' of
             None \<Rightarrow> req
           | Some c \<Rightarrow>
               if c = [] then req
               else
                 let ortb2 = JObj [(''user'', JObj [(''ext'', JObj [(''ctr'', JStr c)])])];
                     ortb2Fragments = get_prop req ''ortb2Fragments''
                 in if nullish ortb2Fragments then req
                    else (case mergeDeep h (get_prop ortb2Fragments ''bidder'')
                                 (JObj [(SUBMODULE_NAME, ortb2)]) of
                            Inl error \<Rightarrow> req
                          | Inr bidder \<Rightarrow>
                              (case set_prop ortb2Fragments ''bidder'' bidder of
                                 Inl e \<Rightarrow> req
                               | Inr fragments \<Rightarrow>
                                   (case set_prop req ''ortb2Fragments'' fragments of
                                      Inl e \<Rightarrow> req
                                    | Inr req' \<Rightarrow> req')))))"

text \<open>
  \<open>getBidRequestData(reqBidsConfigObj, callback)\<close>, called at the instant \<open>now\<close>, against
  the module state. The outcome counts the invocations of \<open>callback\<close> and gives the
  request object afterwards, what the call itself threw, and what the promise chain was
  left rejected with. The continuation \<open>.then(...)\<close> runs once the gate is resolved, no
  earlier than the call, and reads \<open>_country\<close> as it is then; its \<open>finally\<close> invokes
  \<open>callback\<close>, and when that invocation throws, the chain's \<open>.catch\<close> invokes it again.
\<close>

record bid_outcome =
  callback_calls :: nat
  request :: jsval
  thrown :: "exn option"
  unhandled :: "exn option"

definition getBidRequestData ::
  "host \<Rightarrow> module_state \<Rightarrow> rat \<Rightarrow> jsval \<Rightarrow> bid_outcome" where
  "getBidRequestData h st now reqBidsConfigObj =
     (if \<not> truthy reqBidsConfigObj \<or> \<not> typeof_object reqBidsConfigObj
      then \<lparr>callback_calls = 1, request = reqBidsConfigObj, thrown = callback h 0,
            unhandled = None\<rparr>
      else
        (case ensure_bidder reqBidsConfigObj of
           Inl e \<Rightarrow>
             \<lparr>callback_calls = 0, request = reqBidsConfigObj, thrown = Some e,
              unhandled = None\<rparr>
         | Inr req \<Rightarrow>
             (case configMergedPromise st of
                None \<Rightarrow>
                  \<lparr>callback_calls = 0, request = req, thrown = None, unhandled = None\<rparr>
              | Some t \<Rightarrow>
                  let req' = enrich h (country_at (country st) (max now t)) req
                  in (case callback h 0 of
                        None \<Rightarrow>
                          \<lparr>callback_calls = 1, request = req', thrown = None,
                           unhandled = None\<rparr>
                      | Some error \<Rightarrow>
                          \<lparr>callback_calls = 2, request = req', thrown = None,
                           unhandled = callback h 1\<rparr>))))"

text \<open>
  Readers for the statements below: the plugin's configuration object in a profile, and
  the \<open>floors\<close> block of a result as a map from keys to values.
\<close>

definition plugin_config :: "jsval \<Rightarrow> jsval" where
  "plugin_config profileConfigs = get_prop (dynamicFloors_of profileConfigs) ''config''"

definition floors_block :: "jsval \<Rightarrow> string \<Rightarrow> jsval option" where
  "floors_block out = map_of (own_props (get_prop out ''floors''))"

subsection \<open>Ambient browser state\<close>

text \<open>
  A read of the environment either throws or returns. \<open>getLowEntropySUA()\<close> returns
  \<open>undefined\<close> or a result whose \<open>browsers\<close> may be absent; a browser entry carries a
  \<open>brand\<close> string or none, and \<open>b.brand.toLowerCase()\<close> throws a TypeError on an entry
  without one. \<open>navigator?.userAgent\<close> and \<open>window.location?.href\<close> give a string or
  nothing. The regular-expression engine and the URL parser belong to the browser:
  \<open>regex_test r s\<close> is \<open>regex.test(s)\<close> for the table entry \<open>r\<close>, and \<open>url_search s\<close> is
  \<open>new URLSearchParams(new URL(s).search).toString()\<close>, \<open>None\<close> when \<open>new URL(s)\<close> throws.
\<close>

datatype 'a read = Throws | Returns 'a

datatype sua_result = SuaUndefined | SuaResult "string option list option"

text \<open>The twelve patterns of \<open>BROWSER_REGEX_MAP\<close>, named as the source's comments name them.\<close>

datatype browser_regex =
    Chrome_for_iOS | Edge | Opera | Internet_Explorer | Firefox_for_iOS
  | Facebook_In_App_Browser | Chrome_WebView | Android_Browser | Chrome
  | Safari_Mobile | Safari | Firefox

record ambient =
  getLowEntropySUA :: "sua_result read"
  navigator_userAgent :: "string option read"
  location_href :: "string option read"
  regex_test :: "browser_regex \<Rightarrow> string \<Rightarrow> bool"
  url_search :: "string \<Rightarrow> string option"

definition BROWSER_REGEX_MAP :: "(browser_regex \<times> nat) list" where
  "BROWSER_REGEX_MAP =
     [(Chrome_for_iOS, 1), (Edge, 2), (Opera, 3), (Internet_Explorer, 4),
      (Firefox_for_iOS, 5), (Facebook_In_App_Browser, 6), (Chrome_WebView, 7),
      (Android_Browser, 8), (Chrome, 9), (Safari_Mobile, 10), (Safari, 11), (Firefox, 12)]"

subsection \<open>Browser type\<close>

text \<open>
  \<open>sua?.browsers?.map(b => b.brand.toLowerCase()).join(' ') || ''\<close>: the map throws at
  the first entry without a brand.
\<close>

fun map_brands :: "string option list \<Rightarrow> exn + string list" where
  "map_brands [] = Inr []"
| "map_brands (None # bs) = Inl TypeError"
| "map_brands (Some b # bs) =
     (case map_brands bs of Inl e \<Rightarrow> Inl e | Inr xs \<Rightarrow> Inr (toLowerCase b # xs))"

definition brandName_of :: "sua_result \<Rightarrow> exn + string" where
  "brandName_of sua =
     (case sua of
        SuaUndefined \<Rightarrow> Inr []
      | SuaResult None \<Rightarrow> Inr []
      | SuaResult (Some bs) \<Rightarrow>
          (case map_brands bs of Inl e \<Rightarrow> Inl e | Inr xs \<Rightarrow> Inr (join '' '' xs)))"

definition find_browser :: "ambient \<Rightarrow> string \<Rightarrow> (browser_regex \<times> nat) option" where
  "find_browser env s = find (\<lambda>(regex, i). regex_test env regex s) BROWSER_REGEX_MAP"

text \<open>The body of the \<open>try\<close> block of \<open>getBrowserType\<close>: \<open>Inl\<close> is a thrown exception.\<close>

definition getBrowserType_try :: "ambient \<Rightarrow> exn + string" where
  "getBrowserType_try env =
     (case getLowEntropySUA env of
        Throws \<Rightarrow> Inl (Error ''getLowEntropySUA'')
      | Returns sua \<Rightarrow>
          (case brandName_of sua of
             Inl e \<Rightarrow> Inl e
           | Inr brandName \<Rightarrow>
               (let browserMatch = (if brandName \<noteq> [] then find_browser env brandName else None)
                in case (case browserMatch of None \<Rightarrow> None
                         | Some (regex, i) \<Rightarrow> if i \<noteq> 0 then Some i else None) of
                     Some i \<Rightarrow> Inr (toString_nat i)
                   | None \<Rightarrow>
                       (case navigator_userAgent env of
                          Throws \<Rightarrow> Inl (Error ''navigator'')
                        | Returns None \<Rightarrow> Inr ''0''
                        | Returns (Some userAgent) \<Rightarrow>
                            if userAgent = [] then Inr ''0''
                            else (case find_browser env userAgent of
                                    None \<Rightarrow> Inr (toString_nat 0)
                                  | Some (regex, i) \<Rightarrow> Inr (toString_nat i))))))"

text \<open>
  \<open>getBrowserType\<close> with its module-level cache \<open>cachedBrowserType\<close> passed in and
  returned; \<open>None\<close> is the initial \<open>null\<close>. The \<open>catch\<close> block stores and returns \<open>'0'\<close>.
\<close>

definition getBrowserType :: "ambient \<Rightarrow> string option \<Rightarrow> string \<times> string option" where
  "getBrowserType env cachedBrowserType =
     (case cachedBrowserType of
        Some c \<Rightarrow> (c, cachedBrowserType)
      | None \<Rightarrow>
          (case getBrowserType_try env of
             Inr r \<Rightarrow> (r, Some r)
           | Inl error \<Rightarrow> (''0'', Some ''0'')))"

subsection \<open>UTM flag\<close>

definition getUtm_try :: "ambient \<Rightarrow> exn + string" where
  "getUtm_try env =
     (case location_href env of
        Throws \<Rightarrow> Inl (Error ''location'')
      | Returns href \<Rightarrow>
          (case url_search env (case href of None \<Rightarrow> [] | Some h \<Rightarrow> h) of
             None \<Rightarrow> Inl TypeError
           | Some urlParams \<Rightarrow> Inr (if includes_str urlParams UTM then UTM_TRUE else UTM_FALSE)))"

definition getUtm :: "ambient \<Rightarrow> string option \<Rightarrow> string \<times> string option" where
  "getUtm env cachedUtmValue =
     (case cachedUtmValue of
        Some c \<Rightarrow> (c, cachedUtmValue)
      | None \<Rightarrow>
          (case getUtm_try env of
             Inr r \<Rightarrow> (r, Some r)
           | Inl error \<Rightarrow> (UTM_FALSE, Some UTM_FALSE)))"

text \<open>
  A page's successive calls: each call meets the ambient state of its moment and the
  cache the calls before it left; the cache starts empty.
\<close>

fun getBrowserType_calls :: "string option \<Rightarrow> ambient list \<Rightarrow> string list" where
  "getBrowserType_calls cache [] = []"
| "getBrowserType_calls cache (env # envs) =
     (case getBrowserType env cache of (r, cache') \<Rightarrow> r # getBrowserType_calls cache' envs)"

fun getUtm_calls :: "string option \<Rightarrow> ambient list \<Rightarrow> string list" where
  "getUtm_calls cache [] = []"
| "getUtm_calls cache (env # envs) =
     (case getUtm env cache of (r, cache') \<Rightarrow> r # getUtm_calls cache' envs)"

text \<open>The result set of \<open>getBrowserType\<close>: \<open>'0'\<close> and the table's ids as decimal strings.\<close>

definition browser_ids :: "string set" where
  "browser_ids = insert ''0'' (toString_nat ` snd ` set BROWSER_REGEX_MAP)"

text \<open>The caches hold \<open>null\<close> or a string of the result set.\<close>

definition cache_ok :: "string set \<Rightarrow> string option \<Rightarrow> bool" where
  "cache_ok S c = (case c of None \<Rightarrow> True | Some r \<Rightarrow> r \<in> S)"

text \<open>
  Ambient states: one where every read throws, a Firefox page whose address carries a
  UTM parameter, a SUA entry without a brand, a navigator whose read throws, and a page
  with neither user agent nor location.
\<close>

definition env_broken :: ambient where
  "env_broken = \<lparr>getLowEntropySUA = Throws, navigator_userAgent = Throws,
     location_href = Throws, regex_test = (\<lambda>r s. False), url_search = (\<lambda>s. None)\<rparr>"

definition env_firefox :: ambient where
  "env_firefox = \<lparr>getLowEntropySUA = Returns SuaUndefined,
     navigator_userAgent = Returns (Some ''Mozilla/5.0 Gecko/20100101 Firefox/118.0''),
     location_href = Returns (Some ''https://example.com/?utm_source=x''),
     regex_test = (\<lambda>r s. r = Firefox), url_search = (\<lambda>s. Some ''utm_source=x'')\<rparr>"

definition env_no_brand :: ambient where
  "env_no_brand = \<lparr>getLowEntropySUA = Returns (SuaResult (Some [Some ''Chromium'', None])),
     navigator_userAgent = Returns (Some ''Mozilla/5.0 Chrome/118.0''),
     location_href = Returns (Some ''https://example.com/''),
     regex_test = (\<lambda>r s. r = Chrome), url_search = (\<lambda>s. Some [])\<rparr>"

definition env_no_navigator :: ambient where
  "env_no_navigator = \<lparr>getLowEntropySUA = Returns SuaUndefined,
     navigator_userAgent = Throws,
     location_href = Returns (Some ''https://example.com/''),
     regex_test = (\<lambda>r s. False), url_search = (\<lambda>s. Some [])\<rparr>"

definition env_no_location :: ambient where
  "env_no_location = \<lparr>getLowEntropySUA = Returns SuaUndefined,
     navigator_userAgent = Returns None,
     location_href = Returns None,
     regex_test = (\<lambda>r s. False), url_search = (\<lambda>s. if s = [] then None else Some [])\<rparr>"

text \<open>
  Sample inputs: a profile whose plugin is enabled and sets a skip-rate, default values
  and an enforcement block; the same profile without a skip-rate; profiles that are
  disabled or lack the plugin or its configuration; fetched floor data; and page-level
  floor blocks.
\<close>

definition profile_on :: jsval where
  "profile_on =
     JObj [(''plugins'', JObj [(''dynamicFloors'', JObj
       [(''enabled'', JBool True),
        (''config'', JObj [(''skipRate'', JNum 10),
                           (''enforcement'', JObj [(''enforceJS'', JBool False)]),
                           (''defaultValues'', JObj [(''*|*'', JNum (1 / 2))])])])])]"

definition profile_no_skipRate :: jsval where
  "profile_no_skipRate =
     JObj [(''plugins'', JObj [(''dynamicFloors'', JObj
       [(''enabled'', JBool True),
        (''config'', JObj [(''enforcement'', JObj [(''enforceJS'', JBool False)])])])])]"

definition profile_off :: jsval where
  "profile_off =
     JObj [(''plugins'', JObj [(''dynamicFloors'', JObj
       [(''enabled'', JBool False),
        (''config'', JObj [(''skipRate'', JNum 10)])])])]"

definition profile_no_enabled :: jsval where
  "profile_no_enabled =
     JObj [(''plugins'', JObj [(''dynamicFloors'', JObj
       [(''config'', JObj [(''skipRate'', JNum 10)])])])]"

definition profile_no_config :: jsval where
  "profile_no_config =
     JObj [(''plugins'', JObj [(''dynamicFloors'', JObj [(''enabled'', JBool True)])])]"

definition profile_null_config :: jsval where
  "profile_null_config =
     JObj [(''plugins'', JObj [(''dynamicFloors'', JObj
       [(''enabled'', JBool True), (''config'', JNull)])])]"

definition profile_no_plugin :: jsval where
  "profile_no_plugin = JObj [(''plugins'', JObj [(''other'', JObj [])])]"

definition floors_fetched :: jsobj where
  "floors_fetched =
     [(''currency'', JStr ''EUR''),
      (''skipRate'', JNum 50),
      (''schema'', JObj [(''fields'', JArr [JStr ''mediaType''])]),
      (''values'', JObj [(''banner'', JNum 1)])]"

definition page_floors :: jsval where
  "page_floors =
     JObj [(''endpoint'', JObj [(''url'', JStr ''https://floors.example/rules.json'')]),
           (''enforcement'', JObj [(''enforceJS'', JBool True)]),
           (''auctionDelay'', JNum 100)]"

definition page_floors_cx :: jsval where
  "page_floors_cx = JObj [(''endpoint'', JNull), (''defaultValues'', JStr ''page'')]"

text \<open>
  Two networks: one whose first two exchanges fail and whose third delivers the floor
  data with a country header, and one that answers 503 every time.
\<close>

definition net_flaky :: "jsobj network" where
  "net_flaky = (\<lambda>url k.
     if k < 2 then (30, NetworkError (Error ''Failed to fetch''))
     else (40, Response \<lparr>ok = True, status = 200, country_code = Some ''US, CA'',
                          json = Inr floors_fetched\<rparr>))"

definition net_down :: "jsobj network" where
  "net_down = (\<lambda>url k.
     (30, Response \<lparr>ok = False, status = 503, country_code = None,
                    json = Inl (Error ''Unexpected token'')\<rparr>))"

text \<open>
  A page with an auction delay of 1000 ms whose collaborators all return normally, the
  same page with a callback whose first invocation throws, and the same page without a
  \<open>realTimeData\<close> block; networks that answer at once and one that is offline; a module
  configuration with both ids; and a bid request.
\<close>

definition host_page :: host where
  "host_page = \<lparr>conf_realTimeData = JObj [(''auctionDelay'', JNum 1000)],
     conf_floors = page_floors,
     conf_setConfig = (\<lambda>c. None),
     isFn_continueAuction = True,
     continueAuction = (\<lambda>req. Inr req),
     mergeDeep = (\<lambda>target source. Inr (JObj (spread (own_props target) (own_props source)))),
     callback = (\<lambda>k. None)\<rparr>"

definition host_callback_throws :: host where
  "host_callback_throws =
     host_page\<lparr>callback := (\<lambda>k. if k = 0 then Some (Error ''auction failed'') else None)\<rparr>"

definition net_profile :: "jsval network" where
  "net_profile = (\<lambda>url k.
     (100, Response \<lparr>ok = True, status = 200, country_code = None, json = Inr profile_on\<rparr>))"

definition rtd_config :: jsval where
  "rtd_config =
     JObj [(''params'', JObj [(''publisherId'', JStr ''5890''), (''profileId'', JStr ''1234'')])]"

definition bid_request :: jsval where
  "bid_request =
     JObj [(''adUnits'', JArr []), (''ortb2Fragments'', JObj [(''global'', JObj [])])]"

definition net_floors_ok :: "jsobj network" where
  "net_floors_ok = (\<lambda>url k.
     (40, Response \<lparr>ok = True, status = 200, country_code = Some ''US, CA'',
                    json = Inr floors_fetched\<rparr>))"

definition net_offline :: "jsval network" where
  "net_offline = (\<lambda>url k. (30, NetworkError (Error ''Failed to fetch'')))"

definition host_no_delay :: host where
  "host_no_delay = host_page\<lparr>conf_realTimeData := JUndefined\<rparr>"

section \<open>Properties\<close>

subsection \<open>Time-of-day buckets\<close>

text \<open>
  C9. For every local hour h in 0..23, getCurrentTimeOfDay returns 'night' when h < 5 or
  h >= 19, 'morning' when 5 <= h <= 11, 'afternoon' when 12 <= h <= 16 and 'evening' when
  17 <= h <= 18; in particular hour 4 is night, 9 morning, 15 afternoon, 18 evening and
  20 night.
\<close>

theorem getCurrentTimeOfDay_buckets:
  "\<forall>h \<in> {0..23}.
     getCurrentTimeOfDay h =
       (if h < 5 \<or> 19 \<le> h then ''night''
        else if 5 \<le> h \<and> h \<le> 11 then ''morning''
        else if 12 \<le> h \<and> h \<le> 16 then ''afternoon''
        else ''evening'')
     \<and> (17 \<le> h \<and> h \<le> 18 \<longrightarrow> getCurrentTimeOfDay h = ''evening'')
     \<and> getCurrentTimeOfDay 4 = ''night''
     \<and> getCurrentTimeOfDay 9 = ''morning''
     \<and> getCurrentTimeOfDay 15 = ''afternoon''
     \<and> getCurrentTimeOfDay 18 = ''evening''
     \<and> getCurrentTimeOfDay 20 = ''night''"
  by (auto simp: getCurrentTimeOfDay_def)

theorem getCurrentTimeOfDay_buckets_witness:
  "(17::int) \<in> {0..23} \<and> getCurrentTimeOfDay 17 = ''evening''
   \<and> (11::int) \<in> {0..23} \<and> getCurrentTimeOfDay 11 = ''morning''"
  using getCurrentTimeOfDay_buckets by simp

subsection \<open>Browser type and UTM flag\<close>

lemma toString_nat_ids:
  "toString_nat 0 = ''0''" "toString_nat 1 = ''1''" "toString_nat 2 = ''2''"
  "toString_nat 3 = ''3''" "toString_nat 4 = ''4''" "toString_nat 5 = ''5''"
  "toString_nat 6 = ''6''" "toString_nat 7 = ''7''" "toString_nat 8 = ''8''"
  "toString_nat 9 = ''9''" "toString_nat 10 = ''10''" "toString_nat 11 = ''11''"
  "toString_nat 12 = ''12''" "toString_nat (Suc 0) = ''1''"
  by code_simp+

lemma find_browser_id:
  assumes "find_browser env s = Some (regex, i)"
  shows "toString_nat i \<in> browser_ids \<and> i \<noteq> 0"
proof -
  from assms have "(regex, i) \<in> set BROWSER_REGEX_MAP"
    unfolding find_browser_def by (auto simp: find_Some_iff in_set_conv_nth)
  then show ?thesis
    by (force simp: BROWSER_REGEX_MAP_def browser_ids_def)
qed

lemma browser_ids_strings:
  "browser_ids = {''12'', ''11'', ''10'', ''9'', ''8'', ''7'', ''6'', ''5'', ''4'', ''3'',
                  ''2'', ''1'', ''0''}"
  by (auto simp: browser_ids_def BROWSER_REGEX_MAP_def toString_nat_ids)

lemma getBrowserType_try_ids:
  assumes "getBrowserType_try env = Inr r"
  shows "r \<in> browser_ids"
  using assms
  by (auto simp: getBrowserType_try_def Let_def toString_nat_ids
        browser_ids_def [THEN eqset_imp_iff, of "''0''"]
      split: read.splits sum.splits option.splits if_splits prod.splits
      dest: find_browser_id)

lemma getBrowserType_step:
  assumes "cache_ok browser_ids c" and "getBrowserType env c = (r, c')"
  shows "r \<in> browser_ids \<and> cache_ok browser_ids c'"
  using assms getBrowserType_try_ids [of env]
  by (auto simp: getBrowserType_def cache_ok_def browser_ids_def
      split: option.splits sum.splits)

lemma getBrowserType_calls_ids:
  "cache_ok browser_ids c \<Longrightarrow> set (getBrowserType_calls c envs) \<subseteq> browser_ids"
proof (induction envs arbitrary: c)
  case Nil
  then show ?case by simp
next
  case (Cons env envs)
  obtain r c' where step: "getBrowserType env c = (r, c')"
    by (cases "getBrowserType env c")
  with Cons.prems have "r \<in> browser_ids" "cache_ok browser_ids c'"
    using getBrowserType_step by blast+
  with Cons.IH step show ?case by simp
qed

lemma getUtm_step:
  assumes "cache_ok {''0'', ''1''} c" and "getUtm env c = (r, c')"
  shows "r \<in> {''0'', ''1''} \<and> cache_ok {''0'', ''1''} c'"
  using assms
  by (auto simp: getUtm_def getUtm_try_def cache_ok_def UTM_TRUE_def UTM_FALSE_def
      split: option.splits sum.splits read.splits if_splits)

lemma getUtm_calls_ids:
  "cache_ok {''0'', ''1''} c \<Longrightarrow> set (getUtm_calls c envs) \<subseteq> {''0'', ''1''}"
proof (induction envs arbitrary: c)
  case Nil
  then show ?case by simp
next
  case (Cons env envs)
  obtain r c' where step: "getUtm env c = (r, c')"
    by (cases "getUtm env c")
  with Cons.prems have "r \<in> {''0'', ''1''}" "cache_ok {''0'', ''1''} c'"
    using getUtm_step by blast+
  with Cons.IH step show ?case by simp
qed

lemma map_brands_None: "None \<in> set bs \<Longrightarrow> map_brands bs = Inl TypeError"
  by (induction bs rule: map_brands.induct) auto

text \<open>
  C10. getBrowserType and getUtm are total and never throw: in every ambient state, also
  one where reading the low-entropy SUA, navigator.userAgent or window.location throws or
  yields nothing, the error is caught and the fallback '0' returned, so every call
  returns a string of the fixed result set: a browser id '1'..'12' or '0' for
  getBrowserType, '1' or '0' for getUtm.
\<close>

theorem getBrowserType_getUtm_total:
  "set (getBrowserType_calls None envs) \<subseteq> browser_ids
   \<and> browser_ids = {''12'', ''11'', ''10'', ''9'', ''8'', ''7'', ''6'', ''5'', ''4'', ''3'',
                     ''2'', ''1'', ''0''}
   \<and> set (getUtm_calls None envs) \<subseteq> {''0'', ''1''}
   \<and> (getLowEntropySUA e1 = Throws \<longrightarrow> getBrowserType e1 None = (''0'', Some ''0''))
   \<and> (getLowEntropySUA e2 = Returns (SuaResult (Some bs)) \<and> None \<in> set bs
        \<longrightarrow> getBrowserType e2 None = (''0'', Some ''0''))
   \<and> (getLowEntropySUA e3 = Returns SuaUndefined \<and> navigator_userAgent e3 = Throws
        \<longrightarrow> getBrowserType e3 None = (''0'', Some ''0''))
   \<and> (getLowEntropySUA e4 = Returns SuaUndefined \<and> navigator_userAgent e4 = Returns None
        \<longrightarrow> getBrowserType e4 None = (''0'', Some ''0''))
   \<and> (location_href e5 = Throws \<longrightarrow> getUtm e5 None = (''0'', Some ''0''))
   \<and> (location_href e6 = Returns None \<and> url_search e6 [] = None
        \<longrightarrow> getUtm e6 None = (''0'', Some ''0''))"
proof -
  have b: "set (getBrowserType_calls None envs) \<subseteq> browser_ids"
    by (rule getBrowserType_calls_ids) (simp add: cache_ok_def)
  have u: "set (getUtm_calls None envs) \<subseteq> {''0'', ''1''}"
    by (rule getUtm_calls_ids) (simp add: cache_ok_def)
  have t: "getLowEntropySUA e1 = Throws \<longrightarrow> getBrowserType e1 None = (''0'', Some ''0'')"
    by (simp add: getBrowserType_def getBrowserType_try_def)
  have m: "getLowEntropySUA e2 = Returns (SuaResult (Some bs)) \<and> None \<in> set bs
        \<longrightarrow> getBrowserType e2 None = (''0'', Some ''0'')"
    using map_brands_None [of bs]
    by (auto simp: getBrowserType_def getBrowserType_try_def brandName_of_def)
  have n1: "getLowEntropySUA e3 = Returns SuaUndefined \<and> navigator_userAgent e3 = Throws
        \<longrightarrow> getBrowserType e3 None = (''0'', Some ''0'')"
    by (simp add: getBrowserType_def getBrowserType_try_def brandName_of_def)
  have n2: "getLowEntropySUA e4 = Returns SuaUndefined \<and> navigator_userAgent e4 = Returns None
        \<longrightarrow> getBrowserType e4 None = (''0'', Some ''0'')"
    by (simp add: getBrowserType_def getBrowserType_try_def brandName_of_def)
  have l1: "location_href e5 = Throws \<longrightarrow> getUtm e5 None = (''0'', Some ''0'')"
    by (simp add: getUtm_def getUtm_try_def UTM_FALSE_def)
  have l2: "location_href e6 = Returns None \<and> url_search e6 [] = None
        \<longrightarrow> getUtm e6 None = (''0'', Some ''0'')"
    by (simp add: getUtm_def getUtm_try_def UTM_FALSE_def)
  from b browser_ids_strings u t m n1 n2 l1 l2 show ?thesis by blast
qed

theorem getBrowserType_getUtm_total_witness:
  "getBrowserType_calls None [env_firefox, env_broken] = [''12'', ''12'']
   \<and> set (getBrowserType_calls None [env_firefox, env_broken]) \<subseteq> browser_ids
   \<and> getUtm_calls None [env_firefox, env_broken] = [''1'', ''1'']
   \<and> getLowEntropySUA env_broken = Throws
   \<and> getBrowserType env_broken None = (''0'', Some ''0'')
   \<and> getLowEntropySUA env_no_brand = Returns (SuaResult (Some [Some ''Chromium'', None]))
   \<and> None \<in> set [Some ''Chromium'', None]
   \<and> getBrowserType env_no_brand None = (''0'', Some ''0'')
   \<and> getLowEntropySUA env_no_navigator = Returns SuaUndefined
   \<and> navigator_userAgent env_no_navigator = Throws
   \<and> getBrowserType env_no_navigator None = (''0'', Some ''0'')
   \<and> getLowEntropySUA env_no_location = Returns SuaUndefined
   \<and> navigator_userAgent env_no_location = Returns None
   \<and> getBrowserType env_no_location None = (''0'', Some ''0'')
   \<and> location_href env_broken = Throws
   \<and> getUtm env_broken None = (''0'', Some ''0'')
   \<and> location_href env_no_location = Returns None
   \<and> url_search env_no_location [] = None
   \<and> getUtm env_no_location None = (''0'', Some ''0'')"
  using getBrowserType_getUtm_total [of "[env_firefox, env_broken]" env_broken env_no_brand
      "[Some ''Chromium'', None]" env_no_navigator env_no_location env_broken env_no_location]
  by (simp add: env_firefox_def env_broken_def env_no_brand_def env_no_navigator_def
      env_no_location_def getBrowserType_def getBrowserType_try_def
      brandName_of_def find_browser_def BROWSER_REGEX_MAP_def toString_nat_ids
      getUtm_def getUtm_try_def UTM_def UTM_TRUE_def UTM_FALSE_def)

subsection \<open>Floor-configuration merge\<close>

lemma map_of_fold_update:
  "distinct (map fst ps) \<Longrightarrow>
   map_of (fold (\<lambda>(k, v). AList.update k v) ps acc) = map_of acc ++ map_of ps"
proof (induction ps arbitrary: acc)
  case Nil
  then show ?case by simp
next
  case (Cons p ps)
  obtain k v where p: "p = (k, v)" by (cases p)
  from Cons.prems p have k: "k \<notin> dom (map_of ps)" and d: "distinct (map fst ps)"
    by (auto simp: dom_map_of_conv_image_fst)
  have "map_of (fold (\<lambda>(k, v). AList.update k v) (p # ps) acc)
        = map_of (AList.update k v acc) ++ map_of ps"
    using Cons.IH [OF d] p by simp
  also have "\<dots> = (map_of acc)(k \<mapsto> v) ++ map_of ps"
    by (simp add: AList.update_conv')
  also have "\<dots> = (map_of acc ++ map_of ps)(k \<mapsto> v)"
    using k by (auto simp: map_add_def fun_eq_iff domIff split: option.splits)
  also have "\<dots> = map_of acc ++ map_of (p # ps)"
    using p by simp
  finally show ?case .
qed

lemma map_of_spread: "map_of (spread acc ps) = map_of acc ++ map_of ps"
  unfolding spread_def
  by (simp add: map_of_fold_update AList.distinct_clearjunk AList.map_of_clearjunk)

lemma getFloorsConfig_returns:
  assumes "getFloorsConfig fc fd pc \<noteq> JUndefined"
  shows "getFloorsConfig fc fd pc =
           JObj [(''floors'',
                  JObj (spread
                    (spread (spread [] (own_props (defaultFloorConfig_of fc)))
                       (AList.delete ''defaultValues'' (spread [] (own_props (plugin_config pc)))))
                    [(''data'', JObj (finalFloorsData_of fd
                          (spread [] (own_props (plugin_config pc))))),
                     (''additionalSchemaFields'', JObj additionalSchemaFields)]))]"
    and "truthy (get_prop (dynamicFloors_of pc) ''enabled'')"
    and "truthy (plugin_config pc)"
  using assms
  by (auto simp: getFloorsConfig_def opt_prop_def Let_def plugin_config_def split: if_splits)

lemma getFloorsConfig_enabled:
  assumes "truthy (get_prop (dynamicFloors_of pc) ''enabled'')"
      and "truthy (plugin_config pc)"
  shows "getFloorsConfig fc fd pc \<noteq> JUndefined"
proof -
  from assms(1) obtain d where d: "dynamicFloors_of pc = JObj d"
    by (cases "dynamicFloors_of pc") auto
  then obtain pl where pl: "get_prop pc ''plugins'' = JObj pl"
    by (cases "get_prop pc ''plugins''") (auto simp: dynamicFloors_of_def opt_prop_def)
  then obtain kvs where kvs: "pc = JObj kvs"
    by (cases pc) auto
  with pl have "kvs \<noteq> []" by auto
  with kvs have "isPlainObject pc" "\<not> isEmpty pc"
    by (auto simp: isPlainObject_def isEmpty_def)
  with assms d show ?thesis
    by (simp add: getFloorsConfig_def opt_prop_def Let_def plugin_config_def)
qed

lemma floors_block_returns:
  assumes "getFloorsConfig fc fd pc \<noteq> JUndefined"
  shows "floors_block (getFloorsConfig fc fd pc) =
           map_of (own_props (defaultFloorConfig_of fc))
             ++ (map_of (own_props (plugin_config pc)))(''defaultValues'' := None)
             ++ map_of [(''data'', JObj (finalFloorsData_of fd
                                          (spread [] (own_props (plugin_config pc))))),
                        (''additionalSchemaFields'', JObj additionalSchemaFields)]"
  unfolding getFloorsConfig_returns(1) [OF assms] floors_block_def
  by (simp add: map_of_spread AList.delete_conv')

lemma finalFloorsData_of_skipRate:
  "get_prop (JObj (finalFloorsData_of (Some fd) (spread [] cfg))) ''skipRate'' =
     (if get_prop (JObj cfg) ''skipRate'' \<noteq> JUndefined
      then get_prop (JObj cfg) ''skipRate'' else get_prop (JObj fd) ''skipRate'')"
  by (simp add: finalFloorsData_of_def Let_def map_of_spread AList.delete_conv' AList.update_conv')

text \<open>
  C5. For every floorsData, present or absent, getFloorsConfig returns undefined whenever
  the profile configuration is missing, not a plain object or empty, or whenever
  plugins.dynamicFloors is absent, has enabled false (or any falsy enabled), or lacks its
  config sub-object (or has a falsy one).
\<close>

theorem getFloorsConfig_fails_closed:
  "getFloorsConfig fc fd JUndefined = JUndefined
   \<and> getFloorsConfig fc fd JNull = JUndefined
   \<and> (\<not> isPlainObject p1 \<longrightarrow> getFloorsConfig fc fd p1 = JUndefined)
   \<and> (isEmpty p2 \<longrightarrow> getFloorsConfig fc fd p2 = JUndefined)
   \<and> (dynamicFloors_of p3 = JUndefined \<longrightarrow> getFloorsConfig fc fd p3 = JUndefined)
   \<and> (get_prop (dynamicFloors_of p4) ''enabled'' = JBool False
        \<longrightarrow> getFloorsConfig fc fd p4 = JUndefined)
   \<and> (\<not> truthy (get_prop (dynamicFloors_of p5) ''enabled'')
        \<longrightarrow> getFloorsConfig fc fd p5 = JUndefined)
   \<and> (get_prop (dynamicFloors_of p6) ''config'' = JUndefined
        \<longrightarrow> getFloorsConfig fc fd p6 = JUndefined)
   \<and> (\<not> truthy (get_prop (dynamicFloors_of p7) ''config'')
        \<longrightarrow> getFloorsConfig fc fd p7 = JUndefined)"
proof -
  have undefined_if:
    "\<not> truthy (get_prop (dynamicFloors_of p) ''enabled'')
       \<or> \<not> truthy (get_prop (dynamicFloors_of p) ''config'')
     \<Longrightarrow> getFloorsConfig fc fd p = JUndefined" for p
    by (cases "nullish (dynamicFloors_of p)")
       (simp_all add: getFloorsConfig_def opt_prop_def Let_def)
  have c1: "getFloorsConfig fc fd JUndefined = JUndefined"
    by (simp add: getFloorsConfig_def isPlainObject_def)
  have c2: "getFloorsConfig fc fd JNull = JUndefined"
    by (simp add: getFloorsConfig_def isPlainObject_def)
  have c3: "\<not> isPlainObject p1 \<longrightarrow> getFloorsConfig fc fd p1 = JUndefined"
    by (simp add: getFloorsConfig_def)
  have c4: "isEmpty p2 \<longrightarrow> getFloorsConfig fc fd p2 = JUndefined"
    by (simp add: getFloorsConfig_def)
  have c5: "dynamicFloors_of p3 = JUndefined \<longrightarrow> getFloorsConfig fc fd p3 = JUndefined"
    using undefined_if [of p3] by auto
  have c6: "get_prop (dynamicFloors_of p4) ''enabled'' = JBool False
        \<longrightarrow> getFloorsConfig fc fd p4 = JUndefined"
    using undefined_if [of p4] by auto
  have c7: "\<not> truthy (get_prop (dynamicFloors_of p5) ''enabled'')
        \<longrightarrow> getFloorsConfig fc fd p5 = JUndefined"
    using undefined_if [of p5] by auto
  have c8: "get_prop (dynamicFloors_of p6) ''config'' = JUndefined
        \<longrightarrow> getFloorsConfig fc fd p6 = JUndefined"
    using undefined_if [of p6] by auto
  have c9: "\<not> truthy (get_prop (dynamicFloors_of p7) ''config'')
        \<longrightarrow> getFloorsConfig fc fd p7 = JUndefined"
    using undefined_if [of p7] by auto
  show ?thesis
    by (intro conjI) (fact c1 c2 c3 c4 c5 c6 c7 c8 c9)+
qed

theorem getFloorsConfig_fails_closed_witness:
  "\<not> isPlainObject (JArr [JNum 1])
   \<and> getFloorsConfig page_floors (Some floors_fetched) (JArr [JNum 1]) = JUndefined
   \<and> isEmpty (JObj [])
   \<and> getFloorsConfig page_floors (Some floors_fetched) (JObj []) = JUndefined
   \<and> dynamicFloors_of profile_no_plugin = JUndefined
   \<and> getFloorsConfig page_floors (Some floors_fetched) profile_no_plugin = JUndefined
   \<and> get_prop (dynamicFloors_of profile_off) ''enabled'' = JBool False
   \<and> getFloorsConfig page_floors (Some floors_fetched) profile_off = JUndefined
   \<and> \<not> truthy (get_prop (dynamicFloors_of profile_no_enabled) ''enabled'')
   \<and> getFloorsConfig page_floors (Some floors_fetched) profile_no_enabled = JUndefined
   \<and> get_prop (dynamicFloors_of profile_no_config) ''config'' = JUndefined
   \<and> getFloorsConfig page_floors (Some floors_fetched) profile_no_config = JUndefined
   \<and> \<not> truthy (get_prop (dynamicFloors_of profile_null_config) ''config'')
   \<and> getFloorsConfig page_floors (Some floors_fetched) profile_null_config = JUndefined"
  using getFloorsConfig_fails_closed [of page_floors "Some floors_fetched" "JArr [JNum 1]"
      "JObj []" profile_no_plugin profile_off profile_no_enabled profile_no_config
      profile_null_config]
  by (simp add: isPlainObject_def isEmpty_def dynamicFloors_of_def opt_prop_def
      profile_no_plugin_def profile_off_def profile_no_enabled_def profile_no_config_def
      profile_null_config_def)

text \<open>
  C6. For every fetched floorsData and every enabled profile plugin whose config defines
  skipRate, the data payload of getFloorsConfig's output has the plugin's skipRate, not
  the fetched one; when the plugin's skipRate is undefined the fetched skipRate is kept.
\<close>

theorem getFloorsConfig_skipRate:
  assumes "truthy (get_prop (dynamicFloors_of pc) ''enabled'')"
      and "plugin_config pc = JObj cfg"
  shows "getFloorsConfig fc (Some fd) pc \<noteq> JUndefined
         \<and> get_prop (get_prop (get_prop (getFloorsConfig fc (Some fd) pc) ''floors'') ''data'')
               ''skipRate'' =
             (if get_prop (JObj cfg) ''skipRate'' \<noteq> JUndefined
              then get_prop (JObj cfg) ''skipRate''
              else get_prop (JObj fd) ''skipRate'')"
proof -
  have r: "getFloorsConfig fc (Some fd) pc \<noteq> JUndefined"
    using assms by (intro getFloorsConfig_enabled) simp_all
  have "get_prop (get_prop (getFloorsConfig fc (Some fd) pc) ''floors'') ''data''
          = JObj (finalFloorsData_of (Some fd) (spread [] cfg))"
    unfolding getFloorsConfig_returns(1) [OF r] assms(2)
    by (simp add: map_of_spread)
  with r show ?thesis
    by (simp only: finalFloorsData_of_skipRate) simp
qed

theorem getFloorsConfig_skipRate_witness:
  "truthy (get_prop (dynamicFloors_of profile_on) ''enabled'')
   \<and> get_prop (plugin_config profile_on) ''skipRate'' = JNum 10
   \<and> get_prop (JObj floors_fetched) ''skipRate'' = JNum 50
   \<and> get_prop (get_prop (get_prop
          (getFloorsConfig page_floors (Some floors_fetched) profile_on) ''floors'') ''data'')
          ''skipRate'' = JNum 10
   \<and> truthy (get_prop (dynamicFloors_of profile_no_skipRate) ''enabled'')
   \<and> get_prop (plugin_config profile_no_skipRate) ''skipRate'' = JUndefined
   \<and> get_prop (get_prop (get_prop
          (getFloorsConfig page_floors (Some floors_fetched) profile_no_skipRate) ''floors'')
          ''data'') ''skipRate'' = JNum 50"
  using getFloorsConfig_skipRate [of profile_on
          "[(''skipRate'', JNum 10), (''enforcement'', JObj [(''enforceJS'', JBool False)]),
            (''defaultValues'', JObj [(''*|*'', JNum (1 / 2))])]" page_floors floors_fetched]
        getFloorsConfig_skipRate [of profile_no_skipRate
          "[(''enforcement'', JObj [(''enforceJS'', JBool False)])]" page_floors floors_fetched]
  by (simp add: profile_on_def profile_no_skipRate_def floors_fetched_def plugin_config_def
      dynamicFloors_of_def opt_prop_def)

text \<open>
  C7, as the code has it. Whenever getFloorsConfig returns a value, its floors object is
  the page-level floor configuration (without a truthy endpoint), overlaid by the plugin
  configuration (without defaultValues), overlaid by the data payload and the schema
  functions. So every key of the plugin configuration other than defaultValues, data and
  additionalSchemaFields has the plugin's value in the output, whatever the page-level
  configuration holds for it, and when the page-level endpoint is truthy the output has an
  endpoint only if the plugin configuration supplies one.
\<close>

theorem getFloorsConfig_merge_order:
  assumes "getFloorsConfig fc fd pc \<noteq> JUndefined"
  shows "floors_block (getFloorsConfig fc fd pc) =
           map_of (own_props (defaultFloorConfig_of fc))
             ++ (map_of (own_props (plugin_config pc)))(''defaultValues'' := None)
             ++ map_of [(''data'', JObj (finalFloorsData_of fd
                                          (spread [] (own_props (plugin_config pc))))),
                        (''additionalSchemaFields'', JObj additionalSchemaFields)]
         \<and> (\<forall>k w. k \<notin> {''defaultValues'', ''data'', ''additionalSchemaFields''}
                 \<and> map_of (own_props (plugin_config pc)) k = Some w
               \<longrightarrow> floors_block (getFloorsConfig fc fd pc) k = Some w)
         \<and> (truthy (get_prop fc ''endpoint'')
               \<longrightarrow> floors_block (getFloorsConfig fc fd pc) ''endpoint''
                     = map_of (own_props (plugin_config pc)) ''endpoint'')"
proof -
  note fb = floors_block_returns [OF assms]
  have a: "\<forall>k w. k \<notin> {''defaultValues'', ''data'', ''additionalSchemaFields''}
                 \<and> map_of (own_props (plugin_config pc)) k = Some w
               \<longrightarrow> floors_block (getFloorsConfig fc fd pc) k = Some w"
    unfolding fb by (simp add: map_add_Some_iff)
  have b: "truthy (get_prop fc ''endpoint'')
               \<longrightarrow> floors_block (getFloorsConfig fc fd pc) ''endpoint''
                     = map_of (own_props (plugin_config pc)) ''endpoint''"
  proof
    assume t: "truthy (get_prop fc ''endpoint'')"
    then obtain kvs where kvs: "fc = JObj kvs" by (cases fc) auto
    with t have "defaultFloorConfig_of fc = JObj (AList.delete ''endpoint'' kvs)"
      by (simp add: defaultFloorConfig_of_def opt_prop_def)
    then show "floors_block (getFloorsConfig fc fd pc) ''endpoint''
                     = map_of (own_props (plugin_config pc)) ''endpoint''"
      unfolding fb by (simp add: map_add_def AList.delete_conv' split: option.split)
  qed
  show ?thesis by (rule conjI [OF fb conjI [OF a b]])
qed

theorem getFloorsConfig_merge_order_witness:
  "getFloorsConfig page_floors (Some floors_fetched) profile_on \<noteq> JUndefined
   \<and> get_prop page_floors ''enforcement'' = JObj [(''enforceJS'', JBool True)]
   \<and> map_of (own_props (plugin_config profile_on)) ''enforcement''
        = Some (JObj [(''enforceJS'', JBool False)])
   \<and> floors_block (getFloorsConfig page_floors (Some floors_fetched) profile_on) ''enforcement''
        = Some (JObj [(''enforceJS'', JBool False)])
   \<and> truthy (get_prop page_floors ''endpoint'')
   \<and> floors_block (getFloorsConfig page_floors (Some floors_fetched) profile_on) ''endpoint''
        = None
   \<and> floors_block (getFloorsConfig page_floors (Some floors_fetched) profile_on) ''auctionDelay''
        = Some (JNum 100)"
  using getFloorsConfig_merge_order [of page_floors "Some floors_fetched" profile_on]
  by (simp add: page_floors_def profile_on_def floors_fetched_def plugin_config_def
      dynamicFloors_of_def opt_prop_def getFloorsConfig_def isPlainObject_def isEmpty_def
      Let_def defaultFloorConfig_of_def)

text \<open>
  C7 as stated fails on two keys. A defaultValues key present on both sides keeps the
  page-level value, since the plugin's is deleted from the copy before the merge; and a
  page-level endpoint that is falsy (here null) is not deleted and reaches the output.
\<close>

theorem getFloorsConfig_merge_order_counterexample:
  "getFloorsConfig page_floors_cx (Some floors_fetched) profile_on \<noteq> JUndefined
   \<and> get_prop page_floors_cx ''defaultValues'' = JStr ''page''
   \<and> get_prop (plugin_config profile_on) ''defaultValues'' = JObj [(''*|*'', JNum (1 / 2))]
   \<and> floors_block (getFloorsConfig page_floors_cx (Some floors_fetched) profile_on)
        ''defaultValues'' = Some (JStr ''page'')
   \<and> map_of (own_props page_floors_cx) ''endpoint'' = Some JNull
   \<and> map_of (own_props (plugin_config profile_on)) ''endpoint'' = None
   \<and> floors_block (getFloorsConfig page_floors_cx (Some floors_fetched) profile_on)
        ''endpoint'' = Some JNull"
  by (simp add: page_floors_cx_def profile_on_def floors_fetched_def plugin_config_def
      dynamicFloors_of_def opt_prop_def getFloorsConfig_def isPlainObject_def isEmpty_def
      Let_def defaultFloorConfig_of_def floors_block_def spread_def finalFloorsData_of_def)

subsection \<open>The timeout race\<close>

lemma timer_delay_whole:
  assumes "ms \<in> \<int>" and "0 < ms" and "ms \<le> 2147483647"
  shows "timer_delay ms = ms"
proof -
  from assms(1) obtain k :: int where k: "ms = of_int k"
    by (auto elim: Ints_cases)
  with assms(2,3) have "0 < k" "k \<le> 2147483647"
    by simp_all
  then have "to_int32 (of_int k) = k"
    by (simp add: to_int32_def)
  with k \<open>0 < k\<close> show ?thesis
    by (simp add: timer_delay_def)
qed

lemma timer_delay_floor:
  assumes "0 < ms" and "ms < 2147483648"
  shows "timer_delay ms = of_int \<lfloor>ms\<rfloor>"
proof -
  from assms have "0 \<le> \<lfloor>ms\<rfloor>" "\<lfloor>ms\<rfloor> < 2147483648"
    by (simp_all add: floor_less_iff)
  then have "to_int32 ms = \<lfloor>ms\<rfloor>"
    using assms(1) by (simp add: to_int32_def)
  with \<open>0 \<le> \<lfloor>ms\<rfloor>\<close> show ?thesis
    by (simp add: timer_delay_def)
qed

lemma timer_delay_bounds:
  assumes "0 \<le> ms"
  shows "0 \<le> timer_delay ms" and "timer_delay ms \<le> ms"
proof -
  show "0 \<le> timer_delay ms"
    by (simp add: timer_delay_def)
  have m: "\<lfloor>ms\<rfloor> mod 4294967296 \<le> \<lfloor>ms\<rfloor>"
    using assms by (simp add: zmod_le_nonneg_dividend)
  have "to_int32 ms \<le> \<lfloor>ms\<rfloor>"
    using assms m by (simp add: to_int32_def Let_def)
  moreover have "0 \<le> \<lfloor>ms\<rfloor>"
    using assms by simp
  ultimately have "max 0 (to_int32 ms) \<le> \<lfloor>ms\<rfloor>"
    by simp
  then have "of_int (max 0 (to_int32 ms)) \<le> (of_int \<lfloor>ms\<rfloor> :: rat)"
    by (simp only: of_int_le_iff)
  also have "\<dots> \<le> ms"
    by (rule of_int_floor_le)
  finally show "timer_delay ms \<le> ms"
    by (simp add: timer_delay_def)
qed

lemma timer_delay_wraps: "timer_delay 2147483648 = 0"
  by (simp add: timer_delay_def to_int32_def)

lemma withTimeout_instant:
  assumes "0 < ms"
  shows "withTimeout now (Fulfilled t v) ms =
           (if max now t \<le> now + timer_delay ms then Fulfilled (max now t) v
            else Fulfilled (now + timer_delay ms) None)"
    and "withTimeout now (Rejected t e) ms =
           Fulfilled (min (max now t) (now + timer_delay ms)) None"
    and "withTimeout now Pending ms = Fulfilled (now + timer_delay ms) None"
  using assms by (simp_all add: withTimeout_def race_def min_def)

lemma floor_3_2: "\<lfloor>3 / 2 :: rat\<rfloor> = 1"
  by (rule floor_unique) simp_all

lemma timer_800: "timer_delay 800 = 800" "timer_delay 100 = 100" "timer_delay 700 = 700"
  by (simp_all add: timer_delay_def to_int32_def)

text \<open>
  C2, as the code has it. For every promise p and every ms: if ms <= 0, withTimeout(p, ms)
  returns the original promise unmodified. If ms > 0, the timeout fires when the delay
  that setTimeout makes of ms has passed, and withTimeout resolves to p's resolved value
  when p settles before the timeout fires and to the undefined sentinel when the timeout
  fires first (p settling later, with a value or an error, or never). That delay is ms
  itself for a whole ms up to 2147483647, and ms without its fraction for every ms below
  2147483648; at ms = 2147483648 it is 0.
\<close>

theorem withTimeout_race:
  "(ms0 \<le> 0 \<longrightarrow> withTimeout now (p :: 'a option promise) ms0 = p)
   \<and> (0 < ms1 \<and> t1 < now + timer_delay ms1
        \<longrightarrow> withTimeout now (Fulfilled t1 v) ms1 = (Fulfilled (max now t1) v :: 'a option promise))
   \<and> (0 < ms2 \<and> now + timer_delay ms2 < t2
        \<longrightarrow> withTimeout now (Fulfilled t2 v) ms2 = Fulfilled (now + timer_delay ms2) None)
   \<and> (0 < ms3 \<and> now + timer_delay ms3 < t3
        \<longrightarrow> withTimeout now (Rejected t3 e) ms3
              = (Fulfilled (now + timer_delay ms3) None :: 'a option promise))
   \<and> (0 < ms4
        \<longrightarrow> withTimeout now Pending ms4
              = (Fulfilled (now + timer_delay ms4) None :: 'a option promise))
   \<and> (ms5 \<in> \<int> \<and> 0 < ms5 \<and> ms5 \<le> 2147483647 \<longrightarrow> timer_delay ms5 = ms5)
   \<and> (0 < ms6 \<and> ms6 < 2147483648 \<longrightarrow> timer_delay ms6 = of_int \<lfloor>ms6\<rfloor>)
   \<and> timer_delay 2147483648 = 0"
proof -
  have a: "ms0 \<le> 0 \<longrightarrow> withTimeout now p ms0 = p"
    by (simp add: withTimeout_def)
  have b: "0 < ms1 \<and> t1 < now + timer_delay ms1
        \<longrightarrow> withTimeout now (Fulfilled t1 v) ms1 = Fulfilled (max now t1) v"
    using timer_delay_bounds(1) [of ms1] by (auto simp: withTimeout_instant)
  have c: "0 < ms2 \<and> now + timer_delay ms2 < t2
        \<longrightarrow> withTimeout now (Fulfilled t2 v) ms2 = Fulfilled (now + timer_delay ms2) None"
    by (auto simp: withTimeout_instant)
  have d: "0 < ms3 \<and> now + timer_delay ms3 < t3
        \<longrightarrow> withTimeout now (Rejected t3 e) ms3
              = (Fulfilled (now + timer_delay ms3) None :: 'a option promise)"
    using timer_delay_bounds(1) [of ms3] by (auto simp: withTimeout_instant)
  have e: "0 < ms4
        \<longrightarrow> withTimeout now Pending ms4
              = (Fulfilled (now + timer_delay ms4) None :: 'a option promise)"
    by (simp add: withTimeout_instant)
  have f: "ms5 \<in> \<int> \<and> 0 < ms5 \<and> ms5 \<le> 2147483647 \<longrightarrow> timer_delay ms5 = ms5"
    using timer_delay_whole by blast
  have g: "0 < ms6 \<and> ms6 < 2147483648 \<longrightarrow> timer_delay ms6 = of_int \<lfloor>ms6\<rfloor>"
    using timer_delay_floor by blast
  show ?thesis
    by (rule conjI [OF a conjI [OF b conjI [OF c conjI [OF d conjI [OF e conjI [OF f
          conjI [OF g timer_delay_wraps]]]]]]])
qed

theorem withTimeout_race_witness:
  "(0::rat) \<le> 0
   \<and> withTimeout 50 (Rejected 70 TypeError :: jsval option promise) 0 = Rejected 70 TypeError
   \<and> (0::rat) < 800 \<and> (120::rat) < 50 + timer_delay 800
   \<and> withTimeout 50 (Fulfilled 120 (Some (JNum 7))) 800 = Fulfilled 120 (Some (JNum 7))
   \<and> (0::rat) < 100 \<and> (50::rat) + timer_delay 100 < 500
   \<and> withTimeout 50 (Fulfilled 500 (Some (JNum 7))) 100 = Fulfilled 150 None
   \<and> withTimeout 50 (Rejected 500 TypeError :: jsval option promise) 100 = Fulfilled 150 None
   \<and> withTimeout 50 (Pending :: jsval option promise) 100 = Fulfilled 150 None
   \<and> (800::rat) \<in> \<int> \<and> (800::rat) \<le> 2147483647 \<and> timer_delay 800 = 800
   \<and> (0::rat) < 3 / 2 \<and> (3 / 2 :: rat) < 2147483648 \<and> timer_delay (3 / 2) = 1"
  using withTimeout_race [of 0 50 "Rejected 70 TypeError :: jsval option promise" 800 120
      "Some (JNum 7)" 100 500 100 500 TypeError 100 800 "3 / 2"]
  by (simp add: timer_800 floor_3_2)

text \<open>
  C2 as stated fails for a ceiling beyond the 32-bit range of the timer: at
  ms = 2147483648 the delay wraps to a negative number, the timer fires at once, and a
  promise that settles 50 ms later, long before ms has passed, loses the race.
\<close>

theorem withTimeout_race_counterexample:
  "(0::rat) < 2147483648 \<and> (50::rat) < 0 + 2147483648
   \<and> withTimeout 0 (Fulfilled 50 (Some (JNum 7))) 2147483648 = Fulfilled 0 None"
  by (simp add: withTimeout_def race_def timer_delay_wraps)

lemma withTimeout_fulfilled:
  assumes "0 < ms"
  shows "\<exists>t v. withTimeout now p ms = Fulfilled t v"
  using assms by (cases p) (simp_all add: withTimeout_def race_def)

text \<open>
  C3, as the code has it. For ms > 0, withTimeout(p, ms) never rejects and always settles:
  a rejection of p is caught and becomes the undefined sentinel, at the instant of the
  rejection or of the timeout, whichever is first. For ms <= 0 the original promise is
  returned, so its rejection reaches the caller.
\<close>

theorem withTimeout_catches:
  "(0 < ms \<longrightarrow> (\<exists>t' v. withTimeout now (p :: 'a option promise) ms = Fulfilled t' v))
   \<and> (0 < ms1
        \<longrightarrow> withTimeout now (Rejected t e) ms1
              = (Fulfilled (min (max now t) (now + timer_delay ms1)) None :: 'a option promise))
   \<and> (ms2 \<in> \<int> \<and> 0 < ms2 \<and> ms2 \<le> 2147483647 \<and> t2 < now + ms2
        \<longrightarrow> withTimeout now (Rejected t2 e) ms2
              = (Fulfilled (max now t2) None :: 'a option promise))
   \<and> (ms0 \<le> 0
        \<longrightarrow> withTimeout now (Rejected t e) ms0 = (Rejected t e :: 'a option promise))"
proof -
  have a: "0 < ms \<longrightarrow> (\<exists>t' v. withTimeout now p ms = Fulfilled t' v)"
    using withTimeout_fulfilled [of ms now p] by simp
  have b: "0 < ms1
        \<longrightarrow> withTimeout now (Rejected t e) ms1
              = (Fulfilled (min (max now t) (now + timer_delay ms1)) None :: 'a option promise)"
    by (simp add: withTimeout_instant)
  have c: "ms2 \<in> \<int> \<and> 0 < ms2 \<and> ms2 \<le> 2147483647 \<and> t2 < now + ms2
        \<longrightarrow> withTimeout now (Rejected t2 e) ms2
              = (Fulfilled (max now t2) None :: 'a option promise)"
  proof
    assume h: "ms2 \<in> \<int> \<and> 0 < ms2 \<and> ms2 \<le> 2147483647 \<and> t2 < now + ms2"
    then have "timer_delay ms2 = ms2"
      using timer_delay_whole by blast
    with h show "withTimeout now (Rejected t2 e) ms2
              = (Fulfilled (max now t2) None :: 'a option promise)"
      by (simp add: withTimeout_instant min_def)
  qed
  have d: "ms0 \<le> 0
        \<longrightarrow> withTimeout now (Rejected t e) ms0 = (Rejected t e :: 'a option promise)"
    by (simp add: withTimeout_def)
  show ?thesis
    by (rule conjI [OF a conjI [OF b conjI [OF c d]]])
qed

theorem withTimeout_catches_witness:
  "(0::rat) < 800 \<and> (800::rat) \<in> \<int> \<and> (800::rat) \<le> 2147483647 \<and> (120::rat) < 50 + 800
   \<and> withTimeout 50 (Rejected 120 TypeError :: jsval option promise) 800 = Fulfilled 120 None
   \<and> (0::rat) < 2147483648
   \<and> withTimeout 50 (Rejected 120 TypeError :: jsval option promise) 2147483648
        = Fulfilled 50 None
   \<and> (-5::rat) \<le> 0
   \<and> withTimeout 50 (Rejected 120 TypeError :: jsval option promise) (-5)
        = Rejected 120 TypeError"
  using withTimeout_catches [of 800 50 "Rejected 120 TypeError :: jsval option promise"
      2147483648 120 TypeError 800 120 "-5"]
  by (simp add: timer_delay_wraps)

text \<open>
  C3 as stated fails when the ceiling is not positive: the guard \<open>if (ms <= 0) return
  promise\<close> hands back the rejected promise itself.
\<close>

theorem withTimeout_catches_counterexample:
  "withTimeout 0 (Rejected 5 (Error ''offline'') :: jsval option promise) 0
     = Rejected 5 (Error ''offline'')"
  by (simp add: withTimeout_def)

subsection \<open>Retry\<close>

lemma fetch_try_fails:
  "attempt_fails a \<Longrightarrow> \<exists>e c'. fetch_try type a t c = (Inl e, c')"
  by (cases a) (auto simp: attempt_fails_def fetch_try_def Let_def isl_def)

lemma fetch_try_ok:
  "ok r \<Longrightarrow> json r = Inr body \<Longrightarrow> \<exists>c'. fetch_try type (Response r) t c = (Inr body, c')"
  by (simp add: fetch_try_def Let_def)

lemma fetchData_fulfilled:
  "\<exists>t v n' c'. fetchData net pub prof type r (now, n, c) = (Fulfilled t v, n', c')"
proof (induction net pub prof type r "(now, n, c)" arbitrary: now n c rule: fetchData.induct)
  case (1 net publisherId profileId type retries now n country)
  obtain d a where na: "net (fetch_url publisherId profileId type) n = (d, a)"
    by (cases "net (fetch_url publisherId profileId type) n")
  obtain res country' where ft: "fetch_try type a (now + d) country = (res, country')"
    by (cases "fetch_try type a (now + d) country")
  show ?case
  proof (cases res)
    case (Inr body)
    with na ft show ?thesis by (simp add: fetchData.simps)
  next
    case (Inl error)
    show ?thesis
    proof (cases "retries > 0")
      case True
      from "1.hyps" [OF na [symmetric] ft [symmetric] Inl True]
      show ?thesis using na ft Inl True by (simp add: fetchData.simps)
    next
      case False
      with na ft Inl show ?thesis by (simp add: fetchData.simps)
    qed
  qed
qed

lemma fetchData_attempts:
  "fetchData net pub prof type r (now, n, c) = (p, n', c') \<Longrightarrow> n < n' \<and> n' \<le> n + nat r + 1"
proof (induction net pub prof type r "(now, n, c)" arbitrary: now n c rule: fetchData.induct)
  case (1 net publisherId profileId type retries now n country)
  obtain d a where na: "net (fetch_url publisherId profileId type) n = (d, a)"
    by (cases "net (fetch_url publisherId profileId type) n")
  obtain res country' where ft: "fetch_try type a (now + d) country = (res, country')"
    by (cases "fetch_try type a (now + d) country")
  show ?case
  proof (cases res)
    case (Inr body)
    with na ft "1.prems" show ?thesis by (auto simp: fetchData.simps)
  next
    case (Inl error)
    show ?thesis
    proof (cases "retries > 0")
      case True
      with na ft Inl "1.prems"
      have "fetchData net publisherId profileId type (retries - 1)
              (now + d + 1000, Suc n, country') = (p, n', c')"
        by (simp add: fetchData.simps)
      from "1.hyps" [OF na [symmetric] ft [symmetric] Inl True this] True
      show ?thesis by (simp add: nat_diff_distrib')
    next
      case False
      with na ft Inl "1.prems" show ?thesis by (auto simp: fetchData.simps)
    qed
  qed
qed

lemma fetchData_fail_step:
  assumes "net (fetch_url pub prof type) n = (d, a)" and "attempt_fails a" and "0 < r"
  shows "\<exists>c'. fetchData net pub prof type r (now, n, c)
               = fetchData net pub prof type (r - 1) (now + d + 1000, Suc n, c')"
proof -
  from fetch_try_fails [OF assms(2)] obtain e c' where "fetch_try type a (now + d) c = (Inl e, c')"
    by blast
  with assms(1,3) show ?thesis by (auto simp: fetchData.simps)
qed

lemma fetchData_fail_last:
  assumes "net (fetch_url pub prof type) n = (d, a)" and "attempt_fails a" and "\<not> 0 < r"
  shows "\<exists>c'. fetchData net pub prof type r (now, n, c) = (Fulfilled (now + d) None, Suc n, c')"
proof -
  from fetch_try_fails [OF assms(2)] obtain e c' where "fetch_try type a (now + d) c = (Inl e, c')"
    by blast
  with assms(1,3) show ?thesis by (auto simp: fetchData.simps)
qed

lemma fetchData_ok_step:
  assumes "net (fetch_url pub prof type) n = (d, Response resp)"
      and "ok resp" and "json resp = Inr body"
  shows "\<exists>c'. fetchData net pub prof type r (now, n, c)
               = (Fulfilled (now + d) (Some body), Suc n, c')"
proof -
  from fetch_try_ok [OF assms(2,3)] obtain c' where
    "fetch_try type (Response resp) (now + d) c = (Inr body, c')"
    by blast
  with assms(1) show ?thesis by (auto simp: fetchData.simps)
qed

lemma fetchData_fail_fail_ok:
  assumes "net (fetch_url pub prof type) 0 = (d0, a0)" and "attempt_fails a0"
      and "net (fetch_url pub prof type) 1 = (d1, a1)" and "attempt_fails a1"
      and "net (fetch_url pub prof type) 2 = (d2, Response resp)"
      and "ok resp" and "json resp = Inr body"
  shows "\<exists>c'. fetchData net pub prof type retries_default (now, 0, c)
            = (Fulfilled (now + d0 + 1000 + d1 + 1000 + d2) (Some body), 3, c')"
proof -
  from fetchData_fail_step [of net pub prof type 0 d0 a0 2 now c] assms(1,2) obtain c1 where
    s1: "fetchData net pub prof type 2 (now, 0, c)
          = fetchData net pub prof type 1 (now + d0 + 1000, 1, c1)"
    by auto
  from assms(3) have n1: "net (fetch_url pub prof type) (Suc 0) = (d1, a1)" by simp
  from fetchData_fail_step [of net pub prof type "Suc 0" d1 a1 1 "now + d0 + 1000" c1] n1 assms(4) obtain c2 where
    s2: "fetchData net pub prof type 1 (now + d0 + 1000, 1, c1)
          = fetchData net pub prof type 0 (now + d0 + 1000 + d1 + 1000, 2, c2)"
    by (auto simp: numeral_2_eq_2)
  from assms(5) have n2: "net (fetch_url pub prof type) (Suc (Suc 0)) = (d2, Response resp)"
    by (simp add: numeral_2_eq_2)
  from fetchData_ok_step [of net pub prof type "Suc (Suc 0)" d2 resp body 0 "now + d0 + 1000 + d1 + 1000" c2] n2 assms(6,7) obtain c3 where
    s3: "fetchData net pub prof type 0 (now + d0 + 1000 + d1 + 1000, 2, c2)
          = (Fulfilled (now + d0 + 1000 + d1 + 1000 + d2) (Some body), 3, c3)"
    by (auto simp: numeral_2_eq_2 numeral_3_eq_3)
  from s1 s2 s3 show ?thesis by (simp add: retries_default_def)
qed

lemma fetchData_always_fails:
  assumes "\<forall>k. attempt_fails (snd (net (fetch_url pub prof type) k))"
  shows "\<exists>c'. fetchData net pub prof type retries_default (now, 0, c)
            = (Fulfilled (now + fst (net (fetch_url pub prof type) 0) + 1000
                          + fst (net (fetch_url pub prof type) 1) + 1000
                          + fst (net (fetch_url pub prof type) 2)) None, 3, c')"
proof -
  let ?u = "fetch_url pub prof type"
  obtain d0 a0 where n0: "net ?u 0 = (d0, a0)" by (cases "net ?u 0")
  obtain d1 a1 where n1: "net ?u (Suc 0) = (d1, a1)" by (cases "net ?u (Suc 0)")
  obtain d2 a2 where n2: "net ?u (Suc (Suc 0)) = (d2, a2)" by (cases "net ?u (Suc (Suc 0))")
  from assms n0 n1 n2 have f: "attempt_fails a0" "attempt_fails a1" "attempt_fails a2"
    by (metis snd_conv)+
  from fetchData_fail_step [of net pub prof type 0 d0 a0 2 now c] n0 f(1) obtain c1 where
    s1: "fetchData net pub prof type 2 (now, 0, c)
          = fetchData net pub prof type 1 (now + d0 + 1000, 1, c1)"
    by auto
  from fetchData_fail_step [of net pub prof type "Suc 0" d1 a1 1 "now + d0 + 1000" c1] n1 f(2) obtain c2 where
    s2: "fetchData net pub prof type 1 (now + d0 + 1000, 1, c1)
          = fetchData net pub prof type 0 (now + d0 + 1000 + d1 + 1000, 2, c2)"
    by (auto simp: numeral_2_eq_2)
  from fetchData_fail_last [of net pub prof type "Suc (Suc 0)" d2 a2 0 "now + d0 + 1000 + d1 + 1000" c2] n2 f(3) obtain c3 where
    s3: "fetchData net pub prof type 0 (now + d0 + 1000 + d1 + 1000, 2, c2)
          = (Fulfilled (now + d0 + 1000 + d1 + 1000 + d2) None, 3, c3)"
    by (auto simp: numeral_2_eq_2 numeral_3_eq_3)
  from s1 s2 s3 n0 n1 n2 show ?thesis
    by (simp add: retries_default_def numeral_2_eq_2)
qed

text \<open>
  C8. fetchData never rejects and retries a failed attempt a bounded number of times,
  1000 ms after each failure: with the default retry budget, a sequence that fails twice
  and succeeds on the third attempt resolves to the successful JSON payload, and a
  sequence that fails on every attempt resolves to undefined once the retries are used up.
\<close>

theorem fetchData_retries:
  "(\<exists>t v. fst (fetchData net pub prof type r (now, n, c)) = Fulfilled t v)
   \<and> fst (snd (fetchData net pub prof type r (now, n, c))) \<le> n + nat r + 1
   \<and> (net1 (fetch_url pub prof type) 0 = (d0, a0) \<and> attempt_fails a0
        \<and> net1 (fetch_url pub prof type) 1 = (d1, a1) \<and> attempt_fails a1
        \<and> net1 (fetch_url pub prof type) 2 = (d2, Response resp)
        \<and> ok resp \<and> json resp = Inr body
       \<longrightarrow> fst (fetchData net1 pub prof type retries_default (now, 0, c))
             = Fulfilled (now + d0 + 1000 + d1 + 1000 + d2) (Some body)
           \<and> fst (snd (fetchData net1 pub prof type retries_default (now, 0, c))) = 3)
   \<and> ((\<forall>k. attempt_fails (snd (net2 (fetch_url pub prof type) k)))
       \<longrightarrow> fst (fetchData net2 pub prof type retries_default (now, 0, c))
             = Fulfilled (now + fst (net2 (fetch_url pub prof type) 0) + 1000
                            + fst (net2 (fetch_url pub prof type) 1) + 1000
                            + fst (net2 (fetch_url pub prof type) 2)) None
           \<and> fst (snd (fetchData net2 pub prof type retries_default (now, 0, c))) = 3)"
proof -
  have a: "\<exists>t v. fst (fetchData net pub prof type r (now, n, c)) = Fulfilled t v"
    using fetchData_fulfilled [of net pub prof type r now n c] by auto
  have b: "fst (snd (fetchData net pub prof type r (now, n, c))) \<le> n + nat r + 1"
    using fetchData_attempts [of net pub prof type r now n c]
    by (cases "fetchData net pub prof type r (now, n, c)") auto
  have c: "net1 (fetch_url pub prof type) 0 = (d0, a0) \<and> attempt_fails a0
        \<and> net1 (fetch_url pub prof type) 1 = (d1, a1) \<and> attempt_fails a1
        \<and> net1 (fetch_url pub prof type) 2 = (d2, Response resp)
        \<and> ok resp \<and> json resp = Inr body
       \<longrightarrow> fst (fetchData net1 pub prof type retries_default (now, 0, c))
             = Fulfilled (now + d0 + 1000 + d1 + 1000 + d2) (Some body)
           \<and> fst (snd (fetchData net1 pub prof type retries_default (now, 0, c))) = 3"
    using fetchData_fail_fail_ok [of net1 pub prof type d0 a0 d1 a1 d2 resp body now c]
    by auto
  have d: "(\<forall>k. attempt_fails (snd (net2 (fetch_url pub prof type) k)))
       \<longrightarrow> fst (fetchData net2 pub prof type retries_default (now, 0, c))
             = Fulfilled (now + fst (net2 (fetch_url pub prof type) 0) + 1000
                            + fst (net2 (fetch_url pub prof type) 1) + 1000
                            + fst (net2 (fetch_url pub prof type) 2)) None
           \<and> fst (snd (fetchData net2 pub prof type retries_default (now, 0, c))) = 3"
    using fetchData_always_fails [of net2 pub prof type now c]
    by auto
  show ?thesis by (rule conjI [OF a conjI [OF b conjI [OF c d]]])
qed

theorem fetchData_retries_witness:
  "net_flaky (fetch_url ''5890'' ''1234'' FLOORS) 0 = (30, NetworkError (Error ''Failed to fetch''))
   \<and> attempt_fails (NetworkError (Error ''Failed to fetch'') :: jsobj attempt)
   \<and> net_flaky (fetch_url ''5890'' ''1234'' FLOORS) 1 = (30, NetworkError (Error ''Failed to fetch''))
   \<and> net_flaky (fetch_url ''5890'' ''1234'' FLOORS) 2
        = (40, Response \<lparr>ok = True, status = 200, country_code = Some ''US, CA'',
                          json = Inr floors_fetched\<rparr>)
   \<and> fst (fetchData net_flaky ''5890'' ''1234'' FLOORS retries_default (0, 0, []))
        = Fulfilled 2100 (Some floors_fetched)
   \<and> (\<forall>k. attempt_fails (snd (net_down (fetch_url ''5890'' ''1234'' FLOORS) k)))
   \<and> fst (fetchData net_down ''5890'' ''1234'' FLOORS retries_default (0, 0, []))
        = Fulfilled 2090 None
   \<and> fst (snd (fetchData net_down ''5890'' ''1234'' FLOORS retries_default (0, 0, []))) = 3"
  using fetchData_retries [of net_down "''5890''" "''1234''" FLOORS retries_default 0 0 "[]"
      net_flaky 30 "NetworkError (Error ''Failed to fetch'')"
      30 "NetworkError (Error ''Failed to fetch'')" 40
      "\<lparr>ok = True, status = 200, country_code = Some ''US, CA'', json = Inr floors_fetched\<rparr>"
      floors_fetched net_down]
  by (simp add: net_flaky_def net_down_def attempt_fails_def)

subsection \<open>The wait for the floor data\<close>



lemma mergePipeline_fulfilled:
  "wait_ceiling (mergePipeline h t0 (Fulfilled t pc) fp) = Some (remainingTime h t0 t)"
  "raced (mergePipeline h t0 (Fulfilled t pc) fp)
     = Some (withTimeout t fp (remainingTime h t0 t))"
  "configMerged_at (mergePipeline h t0 (Fulfilled t pc) fp)
     = (case settled_at (withTimeout t fp (remainingTime h t0 t)) of
          None \<Rightarrow> None | Some t' \<Rightarrow> Some (max t t'))"
  by (cases "withTimeout t fp (remainingTime h t0 t)"; simp add: mergePipeline_def Let_def)+


lemma remaining_samples:
  "remainingTime host_page 0 100 = 700" "remainingTime host_no_delay 0 100 = 0"
  "auctionDelay_of host_page = 1000" "auctionDelay_of host_no_delay = 0"
  by (simp_all add: remainingTime_def auctionDelay_of_def host_page_def host_no_delay_def)



subsection \<open>The gate and the callback\<close>

text \<open>
  The merge chain resolves the gate on each of its completion paths, and \<open>init\<close>
  resolves it whenever it returns \<open>true\<close>, every exchange of the network being one that
  completes. A request that fails the object check has its callback invoked once; a
  request object whose \<open>ortb2Fragments\<close> is falsy or an object has it invoked, once the
  gate is resolved, once if the invocation returns and twice if it throws.
\<close>

lemma withTimeout_settles:
  "settled_at p \<noteq> None \<or> 0 < ms \<Longrightarrow> settled_at (withTimeout now p ms) \<noteq> None"
  by (cases p) (auto simp: withTimeout_def race_def)

lemma mergePipeline_gate:
  assumes "settled_at cp = Some t"
      and "settled_at fp \<noteq> None \<or> 0 < remainingTime h t0 t"
  shows "configMerged_at (mergePipeline h t0 cp fp) \<noteq> None"
proof (cases cp)
  case (Fulfilled t' pc)
  with assms(1) have t: "t' = t" by simp
  from withTimeout_settles [OF assms(2), of t]
  show ?thesis
    by (auto simp: mergePipeline_fulfilled(3) Fulfilled t)
next
  case (Rejected t' e)
  then show ?thesis by (simp add: mergePipeline_def)
next
  case Pending
  with assms(1) show ?thesis by simp
qed

lemma init_gate:
  assumes "returned (init h nf nc now cfg st)"
  shows "configMergedPromise (state (init h nf nc now cfg st)) \<noteq> None"
proof -
  let ?pub = "the_str (get_prop (if truthy (opt_prop cfg ''params'') then opt_prop cfg ''params''
                                  else JObj []) ''publisherId'')"
  let ?prof = "the_str (get_prop (if truthy (opt_prop cfg ''params'') then opt_prop cfg ''params''
                                   else JObj []) ''profileId'')"
  obtain tf vf n1 c1 where f:
    "fetchData nf ?pub ?prof FLOORS retries_default (now, 0, country st) = (Fulfilled tf vf, n1, c1)"
    using fetchData_fulfilled [of nf ?pub ?prof FLOORS retries_default now 0 "country st"]
    by blast
  obtain tc vc n2 c2 where c:
    "fetchData nc ?pub ?prof CONFIGS retries_default (now, 0, c1) = (Fulfilled tc vc, n2, c2)"
    using fetchData_fulfilled [of nc ?pub ?prof CONFIGS retries_default now 0 c1]
    by blast
  have g: "configMerged_at (mergePipeline h now (Fulfilled tc vc) (Fulfilled tf vf)) \<noteq> None"
    by (rule mergePipeline_gate [of _ tc]) simp_all
  from assms f c g show ?thesis
    by (auto simp: init_def Let_def split: if_splits option.splits)
qed

lemma init_returned:
  assumes "isFn_continueAuction h"
  shows "returned (init h nf nc now rtd_config st)"
  using assms
  by (simp add: init_def rtd_config_def opt_prop_def isStr_def Let_def split: prod.splits)

lemma ensure_bidder_ok:
  assumes "truthy r" and "typeof_object r"
      and "\<not> truthy (get_prop r ''ortb2Fragments'') \<or> (\<exists>kvs. get_prop r ''ortb2Fragments'' = JObj kvs)"
  shows "\<exists>r'. ensure_bidder r = Inr r'"
  using assms
  by (cases r) (auto simp: ensure_bidder_def Let_def)

lemma getBidRequestData_invalid:
  assumes "\<not> truthy r \<or> \<not> typeof_object r"
  shows "callback_calls (getBidRequestData h st now r) = 1"
  using assms by (auto simp: getBidRequestData_def)

lemma getBidRequestData_gate:
  assumes "ensure_bidder r = Inr r'" and "truthy r" and "typeof_object r"
      and "configMergedPromise st \<noteq> None"
  shows "callback_calls (getBidRequestData h st now r) = (if callback h 0 = None then 1 else 2)"
  using assms
  by (auto simp: getBidRequestData_def Let_def split: option.splits)

lemma fetch_floors_ok:
  "fetchData net_floors_ok ''5890'' ''1234'' FLOORS retries_default (0, 0, [])
     = (Fulfilled 40 (Some floors_fetched), 1, [(40, Some ''US'')])"
  by (simp add: fetchData.simps net_floors_ok_def fetch_try_def first_country_def trim_def
      is_space_def)

lemma fetch_profile_ok:
  "fetchData net_profile ''5890'' ''1234'' CONFIGS retries_default (0, 0, c)
     = (Fulfilled 100 (Some profile_on), 1, c)"
  by (simp add: fetchData.simps net_profile_def fetch_try_def)

lemma init_sample:
  "isFn_continueAuction h \<Longrightarrow>
   returned (init h net_floors_ok net_profile 0 rtd_config module_loaded)
   \<and> state (init h net_floors_ok net_profile 0 rtd_config module_loaded)
       = \<lparr>initTime = Some 0, country = [(40, Some ''US'')],
          configMergedPromise =
            configMerged_at (mergePipeline h 0 (Fulfilled 100 (Some profile_on))
                               (Fulfilled 40 (Some floors_fetched)))\<rparr>"
  by (simp add: init_def rtd_config_def opt_prop_def isStr_def the_str_def module_loaded_def
      fetch_floors_ok fetch_profile_ok Let_def)

lemma gate_sample:
  "conf_realTimeData h = JObj [(''auctionDelay'', JNum 1000)] \<Longrightarrow>
   configMerged_at (mergePipeline h 0 (Fulfilled 100 (Some profile_on))
                      (Fulfilled 40 (Some floors_fetched))) = Some 100"
  by (simp add: mergePipeline_fulfilled(3) remainingTime_def auctionDelay_of_def
      withTimeout_def race_def timer_800)

text \<open>
  C1. For every invocation of getBidRequestData the callback is invoked exactly once, and
  every completion path of init's merge pipeline resolves the one-shot gate. The code
  breaks the first part for a callback that throws. After a successful init and merge,
  with the gate resolved at 100 ms, the \<open>finally\<close> of the gate's continuation invokes the
  callback; its exception rejects the chain, and the chain's \<open>.catch\<close> invokes the
  callback a second time. The same request with a callback that returns has it invoked
  once, and so has a request that fails the object check, even with the throwing
  callback.
\<close>

theorem getBidRequestData_callback_twice:
  "returned (init host_callback_throws net_floors_ok net_profile 0 rtd_config module_loaded)
   \<and> configMergedPromise
        (state (init host_callback_throws net_floors_ok net_profile 0 rtd_config module_loaded))
       = Some 100
   \<and> truthy bid_request \<and> typeof_object bid_request
   \<and> callback host_callback_throws 0 = Some (Error ''auction failed'')
   \<and> callback_calls
        (getBidRequestData host_callback_throws
           (state (init host_callback_throws net_floors_ok net_profile 0 rtd_config module_loaded))
           0 bid_request) = 2
   \<and> callback_calls
        (getBidRequestData host_page
           (state (init host_page net_floors_ok net_profile 0 rtd_config module_loaded))
           0 bid_request) = 1
   \<and> callback_calls
        (getBidRequestData host_callback_throws
           (state (init host_callback_throws net_floors_ok net_profile 0 rtd_config module_loaded))
           0 JNull) = 1"
proof -
  have fn: "isFn_continueAuction host_callback_throws" "isFn_continueAuction host_page"
    by (simp_all add: host_callback_throws_def host_page_def)
  have rt: "conf_realTimeData host_callback_throws = JObj [(''auctionDelay'', JNum 1000)]"
    "conf_realTimeData host_page = JObj [(''auctionDelay'', JNum 1000)]"
    by (simp_all add: host_callback_throws_def host_page_def)
  have cb: "callback host_callback_throws 0 = Some (Error ''auction failed'')"
    "callback host_page 0 = None"
    by (simp_all add: host_callback_throws_def host_page_def)
  have eb: "ensure_bidder bid_request
              = Inr (JObj [(''adUnits'', JArr []),
                           (''ortb2Fragments'', JObj [(''global'', JObj []),
                                                      (''bidder'', JObj [])])])"
    by (simp add: ensure_bidder_def bid_request_def)
  have rq: "truthy bid_request" "typeof_object bid_request"
    by (simp_all add: bid_request_def)
  show ?thesis
    using init_sample [OF fn(1)] init_sample [OF fn(2)] gate_sample [OF rt(1)]
      gate_sample [OF rt(2)] cb rq
      getBidRequestData_gate [OF eb rq, of _ host_callback_throws 0]
      getBidRequestData_gate [OF eb rq, of _ host_page 0]
      getBidRequestData_invalid [of JNull host_callback_throws _ 0]
    by simp
qed

theorem getBidRequestData_callback_twice_witness:
  "callback host_callback_throws 0 \<noteq> None
   \<and> callback_calls
        (getBidRequestData host_callback_throws
           (state (init host_callback_throws net_floors_ok net_profile 0 rtd_config module_loaded))
           0 bid_request) = 2"
  using getBidRequestData_callback_twice by simp

text \<open>
  The continuation reads \<open>_country\<close> as it is when it runs. With the floor data arriving
  at 2100 ms and the gate resolved by the timeout at 800 ms, a request made at once is
  not given the country, and one made at 3000 ms is.
\<close>

lemma fetch_floors_flaky:
  "fetchData net_flaky ''5890'' ''1234'' FLOORS retries_default (0, 0, [])
     = (Fulfilled 2100 (Some floors_fetched), 3, [(2100, Some ''US'')])"
  by (simp add: fetchData.simps net_flaky_def fetch_try_def first_country_def trim_def
      is_space_def retries_default_def)

lemma getBidRequestData_country:
  "configMergedPromise (state (init host_page net_flaky net_profile 0 rtd_config module_loaded))
     = Some 800
   \<and> country (state (init host_page net_flaky net_profile 0 rtd_config module_loaded))
       = [(2100, Some ''US'')]
   \<and> get_prop (get_prop (request (getBidRequestData host_page
          (state (init host_page net_flaky net_profile 0 rtd_config module_loaded))
          0 bid_request)) ''ortb2Fragments'') ''bidder'' = JObj []
   \<and> get_prop (get_prop (request (getBidRequestData host_page
          (state (init host_page net_flaky net_profile 0 rtd_config module_loaded))
          3000 bid_request)) ''ortb2Fragments'') ''bidder''
       = JObj [(''pubmatic'', JObj [(''user'', JObj [(''ext'', JObj [(''ctr'', JStr ''US'')])])])]"
proof -
  have g: "configMerged_at (mergePipeline host_page 0 (Fulfilled 100 (Some profile_on))
                      (Fulfilled 2100 (Some floors_fetched))) = Some 800"
    by (simp add: mergePipeline_fulfilled(3) remaining_samples withTimeout_def race_def
        timer_800)
  have st: "state (init host_page net_flaky net_profile 0 rtd_config module_loaded)
       = \<lparr>initTime = Some 0, country = [(2100, Some ''US'')],
          configMergedPromise = Some 800\<rparr>"
    by (simp add: init_def rtd_config_def opt_prop_def isStr_def the_str_def module_loaded_def
        fetch_floors_flaky fetch_profile_ok Let_def g host_page_def [THEN arg_cong, of isFn_continueAuction])
  show ?thesis
    unfolding st
    by (simp add: getBidRequestData_def ensure_bidder_def bid_request_def enrich_def
        country_at_def host_page_def spread_def SUBMODULE_NAME_def Let_def)
qed

end
